theory Spec2Isabelle
  imports Main "HOL-Library.Char_ord" "HOL-Library.List_Lexorder" "HOL-Library.AList"
begin

section \<open>Python values, exceptions and diagnostics\<close>

text \<open>
  The development embeds \<^verbatim>\<open>neat/config.py\<close> and \<^verbatim>\<open>neat/aggregations.py\<close>.
  A configuration value is a Python \<^verbatim>\<open>str\<close>, \<^verbatim>\<open>int\<close>, \<^verbatim>\<open>bool\<close>, \<^verbatim>\<open>float\<close> or list of
  \<^verbatim>\<open>str\<close> (the annotation of \<^verbatim>\<open>ConfigParameter.__init__\<close>). Floating point numbers are
  not interpreted: their carrier is the type parameter \<open>'f\<close>. Strings are \<open>char list\<close>;
  \<^verbatim>\<open>len\<close> and \<^verbatim>\<open>lower\<close> are those of ASCII text.
\<close>

datatype 'f pyval =
    VStr string
  | VInt int
  | VBool bool
  | VFloat 'f
  | VList "string list"

text \<open>The class of a value.\<close>

datatype pyclass = CStr | CInt | CBool | CFloat | CList

fun class_of :: "'f pyval \<Rightarrow> pyclass" where
  "class_of (VStr s) = CStr"
| "class_of (VInt i) = CInt"
| "class_of (VBool b) = CBool"
| "class_of (VFloat x) = CFloat"
| "class_of (VList xs) = CList"

text \<open>
  \<^verbatim>\<open>value_type\<close> is a Python type object. Only \<^verbatim>\<open>str\<close>, \<^verbatim>\<open>int\<close>, \<^verbatim>\<open>bool\<close>, \<^verbatim>\<open>float\<close> and \<^verbatim>\<open>list\<close>
  are compared against; any other type is \<open>TOther\<close>, with the classes whose values are its
  instances (all five for \<^verbatim>\<open>object\<close>, none for \<^verbatim>\<open>dict\<close>).
\<close>

datatype value_type =
    TStr
  | TInt
  | TBool
  | TFloat
  | TList
  | TOther "pyclass list"

text \<open>
  Exceptions, one constructor per Python class raised or caught. \<open>RuntimeError\<close> carries the
  message where the source builds it from strings alone; the two messages built with
  \<^verbatim>\<open>repr\<close> of a value or of a type carry the formatted arguments instead.
  \<open>NoSectionError\<close>, \<open>NoOptionError\<close>, \<open>InterpolationError\<close> and \<open>ParsingError\<close> are the subclasses of
  \<^verbatim>\<open>configparser.Error\<close>.
\<close>

datatype 'f exn =
    RuntimeError string
  | RuntimeError_interpreting string "'f pyval" "value_type"
  | RuntimeError_unexpected_type "value_type"
  | UnknownConfigItemError string
  | Exception_no_such_config_file string
  | AssertionError
  | AttributeError
  | ValueError
  | TypeError
  | KeyError
  | NoSectionError
  | NoOptionError
  | InterpolationError
  | ParsingError

text \<open>
  A call of \<^verbatim>\<open>warnings.warn(..., DeprecationWarning)\<close> is recorded in a log, in order.
  \<open>UsingDefault d n\<close> is the message \<^verbatim>\<open>"Using default {!r} for '{!s}'".format(d, n)\<close>,
  \<open>UseGetNotIndexing i\<close> the message of \<^verbatim>\<open>AggregationFunctionSet.__getitem__\<close>.
\<close>

datatype 'f warning =
    UsingDefault "'f pyval" string
  | UseGetNotIndexing string

text \<open>
  The conversions of the Python runtime that involve floating point, the parsing of integer
  literals and the \<^verbatim>\<open>repr\<close> of a list are parameters of the model; \<open>None\<close> stands for the
  \<^verbatim>\<open>ValueError\<close> or \<^verbatim>\<open>OverflowError\<close> of the conversion.
\<close>

record 'f builtins =
  int_of_str :: "string \<Rightarrow> int option"
  int_of_float :: "'f \<Rightarrow> int option"
  float_of_str :: "string \<Rightarrow> 'f option"
  float_of_int :: "int \<Rightarrow> 'f option"
  str_of_float :: "'f \<Rightarrow> string"
  str_of_list :: "string list \<Rightarrow> string"

subsection \<open>String operations\<close>

definition lower_char :: "char \<Rightarrow> char" where
  "lower_char c =
     (let n = (of_char c :: nat) in if 65 \<le> n \<and> n \<le> 90 then char_of (n + 32) else c)"

definition lower :: "string \<Rightarrow> string" where
  "lower s = map lower_char s"

text \<open>\<^verbatim>\<open>s.split(sep)\<close> for a one-character separator: \<^verbatim>\<open>"".split(" ") == [""]\<close>.\<close>

fun split :: "char \<Rightarrow> string \<Rightarrow> string list" where
  "split sep [] = [[]]"
| "split sep (c # cs) =
     (if c = sep then [] # split sep cs
      else (case split sep cs of [] \<Rightarrow> [[c]] | t # ts \<Rightarrow> (c # t) # ts))"

text \<open>\<^verbatim>\<open>sep.join(xs)\<close>.\<close>

fun join :: "string \<Rightarrow> string list \<Rightarrow> string" where
  "join sep [] = []"
| "join sep [x] = x"
| "join sep (x # y # ys) = x @ sep @ join sep (y # ys)"

text \<open>\<^verbatim>\<open>s.ljust(width)\<close>: blanks are appended, never removed.\<close>

definition ljust :: "string \<Rightarrow> nat \<Rightarrow> string" where
  "ljust s width = s @ replicate (width - length s) CHR '' ''"

text \<open>\<^verbatim>\<open>str(i)\<close> for an integer: decimal digits, a minus sign when negative.\<close>

fun digits :: "nat \<Rightarrow> string" where
  "digits n =
     (if n < 10 then [char_of (48 + n)] else digits (n div 10) @ [char_of (48 + n mod 10)])"

definition str_of_int :: "int \<Rightarrow> string" where
  "str_of_int i = (if i < 0 then CHR ''-'' # digits (nat (- i)) else digits (nat i))"

fun py_str :: "'f builtins \<Rightarrow> 'f pyval \<Rightarrow> string" where
  "py_str py (VStr s) = s"
| "py_str py (VInt i) = str_of_int i"
| "py_str py (VBool b) = (if b then ''True'' else ''False'')"
| "py_str py (VFloat x) = str_of_float py x"
| "py_str py (VList xs) = str_of_list py xs"

text \<open>\<^verbatim>\<open>int(v)\<close> and \<^verbatim>\<open>float(v)\<close>; a list is a \<^verbatim>\<open>TypeError\<close>.\<close>

fun py_int :: "'f builtins \<Rightarrow> 'f pyval \<Rightarrow> 'f exn + int" where
  "py_int py (VStr s) = (case int_of_str py s of None \<Rightarrow> Inl ValueError | Some i \<Rightarrow> Inr i)"
| "py_int py (VInt i) = Inr i"
| "py_int py (VBool b) = Inr (if b then 1 else 0)"
| "py_int py (VFloat x) = (case int_of_float py x of None \<Rightarrow> Inl ValueError | Some i \<Rightarrow> Inr i)"
| "py_int py (VList xs) = Inl TypeError"

fun py_float :: "'f builtins \<Rightarrow> 'f pyval \<Rightarrow> 'f exn + 'f" where
  "py_float py (VStr s) = (case float_of_str py s of None \<Rightarrow> Inl ValueError | Some x \<Rightarrow> Inr x)"
| "py_float py (VInt i) = (case float_of_int py i of None \<Rightarrow> Inl ValueError | Some x \<Rightarrow> Inr x)"
| "py_float py (VBool b) =
     (case float_of_int py (if b then 1 else 0) of None \<Rightarrow> Inl ValueError | Some x \<Rightarrow> Inr x)"
| "py_float py (VFloat x) = Inr x"
| "py_float py (VList xs) = Inl TypeError"

text \<open>\<^verbatim>\<open>isinstance(v, t)\<close>; \<^verbatim>\<open>bool\<close> is a subclass of \<^verbatim>\<open>int\<close>.\<close>

fun isinstance :: "'f pyval \<Rightarrow> value_type \<Rightarrow> bool" where
  "isinstance v TStr = (case v of VStr _ \<Rightarrow> True | _ \<Rightarrow> False)"
| "isinstance v TInt = (case v of VInt _ \<Rightarrow> True | VBool _ \<Rightarrow> True | _ \<Rightarrow> False)"
| "isinstance v TBool = (case v of VBool _ \<Rightarrow> True | _ \<Rightarrow> False)"
| "isinstance v TFloat = (case v of VFloat _ \<Rightarrow> True | _ \<Rightarrow> False)"
| "isinstance v TList = (case v of VList _ \<Rightarrow> True | _ \<Rightarrow> False)"
| "isinstance v (TOther classes) = (class_of v \<in> set classes)"

section \<open>ConfigParameter\<close>

record 'f ConfigParameter =
  name :: string
  value_type :: "value_type"
  default_value :: "'f pyval option"

text \<open>A \<^verbatim>\<open>Dict[str, str]\<close>: an association list with distinct keys, in iteration order.\<close>

type_synonym config_dict = "(string \<times> string) list"

text \<open>
  The body of the \<^verbatim>\<open>try\<close> block of \<^verbatim>\<open>interpret\<close> (lines 89 to 103): \<open>None\<close> when no
  \<^verbatim>\<open>if\<close> applies and control leaves the block, \<open>Some (Inl e)\<close> when \<open>e\<close> is raised inside.
  \<^verbatim>\<open>value.lower()\<close> and \<^verbatim>\<open>value.split\<close> exist on strings only.
\<close>

definition interpret_try ::
  "'f builtins \<Rightarrow> 'f ConfigParameter \<Rightarrow> 'f pyval \<Rightarrow> ('f exn + 'f pyval) option" where
  "interpret_try py p v =
     (case value_type p of
        TStr \<Rightarrow> Some (Inr (VStr (py_str py v)))
      | TInt \<Rightarrow> Some (map_sum id VInt (py_int py v))
      | TBool \<Rightarrow>
          (case v of
             VStr s \<Rightarrow>
               if lower s = ''true'' then Some (Inr (VBool True))
               else if lower s = ''false'' then Some (Inr (VBool False))
               else Some (Inl (RuntimeError (name p @ '' must be True or False'')))
           | _ \<Rightarrow> Some (Inl AttributeError))
      | TFloat \<Rightarrow> Some (map_sum id VFloat (py_float py v))
      | TList \<Rightarrow>
          (case v of
             VStr s \<Rightarrow> Some (Inr (VList (split CHR '' '' s)))
           | _ \<Rightarrow> Some (Inl AttributeError))
      | TOther _ \<Rightarrow> None)"

text \<open>
  Lines 88 to 108: every exception raised inside the \<^verbatim>\<open>try\<close> block is caught by
  \<^verbatim>\<open>except Exception\<close> and replaced.
\<close>

definition interpret_value ::
  "'f builtins \<Rightarrow> 'f ConfigParameter \<Rightarrow> 'f pyval \<Rightarrow> 'f exn + 'f pyval" where
  "interpret_value py p v =
     (case interpret_try py p v of
        Some (Inr r) \<Rightarrow> Inr r
      | Some (Inl e) \<Rightarrow> Inl (RuntimeError_interpreting (name p) v (value_type p))
      | None \<Rightarrow> Inl (RuntimeError_unexpected_type (value_type p)))"

text \<open>\<^verbatim>\<open>ConfigParameter.interpret\<close> (\<open>interpret\<close> is a keyword of the proof language, hence the suffix): the warnings emitted, and the value or the exception.\<close>

definition interpret_param ::
  "'f builtins \<Rightarrow> 'f ConfigParameter \<Rightarrow> config_dict \<Rightarrow> 'f warning list \<times> ('f exn + 'f pyval)" where
  "interpret_param py p config_dict =
     (case map_of config_dict (name p) of
        None \<Rightarrow>
          (case default_value p of
             None \<Rightarrow> ([], Inl (RuntimeError (''Missing configuration item: '' @ name p)))
           | Some d \<Rightarrow>
               if value_type p \<noteq> TStr \<and> isinstance d (value_type p)
               then ([UsingDefault d (name p)], Inr d)
               else ([UsingDefault d (name p)], interpret_value py p d))
      | Some s \<Rightarrow> ([], interpret_value py p (VStr s)))"

text \<open>
  \<^verbatim>\<open>ConfigParameter.format\<close>. \<^verbatim>\<open>cast(Iterable, value)\<close> is that of \<^verbatim>\<open>neat/mypy_util.py\<close>
  with \<^verbatim>\<open>Iterable = list\<close>: it asserts that the value is a list.
\<close>

definition format :: "'f builtins \<Rightarrow> 'f ConfigParameter \<Rightarrow> 'f pyval \<Rightarrow> 'f exn + string" where
  "format py p v =
     (case value_type p of
        TList \<Rightarrow> (case v of VList xs \<Rightarrow> Inr (join '' '' xs) | _ \<Rightarrow> Inl AssertionError)
      | _ \<Rightarrow> Inr (py_str py v))"

section \<open>write_pretty_params\<close>

text \<open>
  The text sink \<^verbatim>\<open>f\<close> is the list of the strings passed to \<^verbatim>\<open>f.write\<close>, in order. A
  writer returns what it wrote and the exception that stopped it, if any.
\<close>

type_synonym 'f written = "string list \<times> 'f exn option"

fun wseq :: "'f written \<Rightarrow> 'f written \<Rightarrow> 'f written" where
  "wseq (a, Some e) w = (a, Some e)"
| "wseq (a, None) (b, r) = (a @ b, r)"

text \<open>
  \<^verbatim>\<open>dict(pairs)\<close>: a later pair with a key already present replaces the value and keeps the
  key's position.
\<close>

definition dict :: "('k \<times> 'v) list \<Rightarrow> ('k \<times> 'v) list" where
  "dict kvs = fold (\<lambda>(k, v) d. AList.update k v d) kvs []"

text \<open>
  The loop of lines 123 to 125. \<open>config\<close> is the attribute lookup of the configuration object
  (\<^verbatim>\<open>getattr\<close>): \<open>None\<close> is a missing attribute.
\<close>

fun write_param_lines ::
  "'f builtins \<Rightarrow> (string \<rightharpoonup> 'f pyval) \<Rightarrow> nat \<Rightarrow> (string \<times> 'f ConfigParameter) list \<Rightarrow>
   string list \<Rightarrow> 'f written" where
  "write_param_lines py config longest_name params_dict [] = ([], None)"
| "write_param_lines py config longest_name params_dict (n # ns) =
     (case map_of params_dict n of
        None \<Rightarrow> ([], Some KeyError)
      | Some p \<Rightarrow>
          (case config (name p) of
             None \<Rightarrow> ([], Some AttributeError)
           | Some v \<Rightarrow>
               (case format py p v of
                  Inl e \<Rightarrow> ([], Some e)
                | Inr s \<Rightarrow>
                    wseq ([ljust (name p) longest_name @ '' = '' @ s @ ''\<newline>''], None)
                      (write_param_lines py config longest_name params_dict ns))))"

text \<open>\<^verbatim>\<open>max\<close> of an empty sequence raises \<^verbatim>\<open>ValueError\<close>.\<close>

definition write_pretty_params ::
  "'f builtins \<Rightarrow> (string \<rightharpoonup> 'f pyval) \<Rightarrow> 'f ConfigParameter list \<Rightarrow> 'f written" where
  "write_pretty_params py config params =
     (let param_names = map name params in
      case map length param_names of
        [] \<Rightarrow> ([], Some ValueError)
      | l # ls \<Rightarrow>
          (let longest_name = fold max ls l;
               params_dict = dict (map (\<lambda>p. (name p, p)) params)
           in write_param_lines py config longest_name params_dict (sort param_names)))"

section \<open>DefaultClassConfig\<close>

text \<open>
  The object holds \<^verbatim>\<open>_params\<close> and the attributes set by \<^verbatim>\<open>setattr\<close>; parameter names are
  taken to differ from \<^verbatim>\<open>_params\<close>.
\<close>

record 'f DefaultClassConfig =
  params :: "'f ConfigParameter list"
  attrs :: "string \<rightharpoonup> 'f pyval"

text \<open>The loop of lines 145 to 147: the first failing \<^verbatim>\<open>interpret\<close> ends it.\<close>

fun interpret_params ::
  "'f builtins \<Rightarrow> config_dict \<Rightarrow> 'f ConfigParameter list \<Rightarrow> (string \<rightharpoonup> 'f pyval) \<Rightarrow>
   'f warning list \<times> ('f exn + (string \<rightharpoonup> 'f pyval))" where
  "interpret_params py param_dict [] a = ([], Inr a)"
| "interpret_params py param_dict (p # ps) a =
     (case interpret_param py p param_dict of
        (ws, Inl e) \<Rightarrow> (ws, Inl e)
      | (ws, Inr v) \<Rightarrow>
          (case interpret_params py param_dict ps (a(name p \<mapsto> v)) of
             (ws', r) \<Rightarrow> (ws @ ws', r)))"

text \<open>
  Modelled from the spec: \<^verbatim>\<open>neat.six_util.iterkeys\<close> is not among the sources; it iterates
  over the keys of the mapping (``the set of mapping keys not covered by any descriptor
  name''). \<open>unknown_list\<close> is the comprehension of lines 148 and 218.
\<close>

definition iterkeys :: "('k \<times> 'v) list \<Rightarrow> 'k list" where
  "iterkeys d = map fst d"

definition unknown_list :: "config_dict \<Rightarrow> string list \<Rightarrow> string list" where
  "unknown_list param_dict param_list_names =
     filter (\<lambda>x. x \<notin> set param_list_names) (iterkeys param_dict)"

definition DefaultClassConfig_init ::
  "'f builtins \<Rightarrow> config_dict \<Rightarrow> 'f ConfigParameter list \<Rightarrow>
   'f warning list \<times> ('f exn + 'f DefaultClassConfig)" where
  "DefaultClassConfig_init py param_dict param_list =
     (case interpret_params py param_dict param_list Map.empty of
        (ws, Inl e) \<Rightarrow> (ws, Inl e)
      | (ws, Inr a) \<Rightarrow>
          (let unknown = unknown_list param_dict (map name param_list) in
           if unknown \<noteq> [] then
             if length unknown > 1 then
               (ws, Inl (UnknownConfigItemError
                  (''Unknown configuration items:\<newline>'' @ join [CHR ''\<newline>'', CHR 0x09] unknown)))
             else
               (ws, Inl (UnknownConfigItemError (''Unknown configuration item '' @ unknown ! 0)))
           else (ws, Inr \<lparr>params = param_list, attrs = a\<rparr>)))"

definition DefaultClassConfig_write_config ::
  "'f builtins \<Rightarrow> 'f DefaultClassConfig \<Rightarrow> 'f written" where
  "DefaultClassConfig_write_config py config = write_pretty_params py (attrs config) (params config)"

section \<open>The section reader\<close>

text \<open>
  \<^verbatim>\<open>ConfigParser\<close> belongs to the Python standard library. The model is the parsed file: the
  sections in file order, each a list of options (keys lower-cased by the reader, distinct)
  with the outcome of reading the option's text: \<open>Text s\<close> when interpolation yields \<open>s\<close>,
  \<open>BadInterpolation\<close> when the text is not valid \<^verbatim>\<open>%\<close>-interpolation syntax, for which
  both \<^verbatim>\<open>get\<close> and \<^verbatim>\<open>items\<close> raise \<^verbatim>\<open>InterpolationError\<close>. The reader is created with
  \<^verbatim>\<open>ConfigParser()\<close>, so no option is without a value.
\<close>

datatype option_text = Text string | BadInterpolation

type_synonym ConfigParser = "(string \<times> (string \<times> option_text) list) list"

definition has_section :: "ConfigParser \<Rightarrow> string \<Rightarrow> bool" where
  "has_section cp section = (\<not> Option.is_none (map_of cp section))"

definition cp_get :: "ConfigParser \<Rightarrow> string \<Rightarrow> string \<Rightarrow> 'f exn + string" where
  "cp_get cp section option =
     (case map_of cp section of
        None \<Rightarrow> Inl NoSectionError
      | Some opts \<Rightarrow>
          (case map_of opts (lower option) of
             None \<Rightarrow> Inl NoOptionError
           | Some BadInterpolation \<Rightarrow> Inl InterpolationError
           | Some (Text s) \<Rightarrow> Inr s))"

fun interpolate_items :: "(string \<times> option_text) list \<Rightarrow> 'f exn + (string \<times> string) list" where
  "interpolate_items [] = Inr []"
| "interpolate_items ((k, BadInterpolation) # opts) = Inl InterpolationError"
| "interpolate_items ((k, Text s) # opts) =
     (case interpolate_items opts of Inl e \<Rightarrow> Inl e | Inr kvs \<Rightarrow> Inr ((k, s) # kvs))"

definition cp_items :: "ConfigParser \<Rightarrow> string \<Rightarrow> 'f exn + (string \<times> string) list" where
  "cp_items cp section =
     (case map_of cp section of
        None \<Rightarrow> Inl NoSectionError
      | Some opts \<Rightarrow> interpolate_items opts)"

definition getint :: "'f builtins \<Rightarrow> ConfigParser \<Rightarrow> string \<Rightarrow> string \<Rightarrow> 'f exn + int" where
  "getint py cp section option =
     (case cp_get cp section option of
        Inl e \<Rightarrow> Inl e
      | Inr s \<Rightarrow> (case int_of_str py s of None \<Rightarrow> Inl ValueError | Some i \<Rightarrow> Inr i))"

definition getfloat :: "'f builtins \<Rightarrow> ConfigParser \<Rightarrow> string \<Rightarrow> string \<Rightarrow> 'f exn + 'f" where
  "getfloat py cp section option =
     (case cp_get cp section option of
        Inl e \<Rightarrow> Inl e
      | Inr s \<Rightarrow> (case float_of_str py s of None \<Rightarrow> Inl ValueError | Some x \<Rightarrow> Inr x))"

text \<open>The reader's table of boolean words.\<close>

definition getboolean :: "ConfigParser \<Rightarrow> string \<Rightarrow> string \<Rightarrow> 'f exn + bool" where
  "getboolean cp section option =
     (case cp_get cp section option of
        Inl e \<Rightarrow> Inl e
      | Inr s \<Rightarrow>
          if lower s \<in> set [''1'', ''yes'', ''true'', ''on''] then Inr True
          else if lower s \<in> set [''0'', ''no'', ''false'', ''off''] then Inr False
          else Inl ValueError)"

text \<open>\<^verbatim>\<open>ConfigParameter.parse\<close>.\<close>

definition parse ::
  "'f builtins \<Rightarrow> 'f ConfigParameter \<Rightarrow> string \<Rightarrow> ConfigParser \<Rightarrow> 'f exn + 'f pyval" where
  "parse py p section config_parser =
     (case value_type p of
        TInt \<Rightarrow> map_sum id VInt (getint py config_parser section (name p))
      | TBool \<Rightarrow> map_sum id VBool (getboolean config_parser section (name p))
      | TFloat \<Rightarrow> map_sum id VFloat (getfloat py config_parser section (name p))
      | TList \<Rightarrow> map_sum id (\<lambda>v. VList (split CHR '' '' v)) (cp_get config_parser section (name p))
      | TStr \<Rightarrow> map_sum id VStr (cp_get config_parser section (name p))
      | TOther _ \<Rightarrow> Inl (RuntimeError_unexpected_type (value_type p)))"

section \<open>Config\<close>

definition Config_params :: "'f ConfigParameter list" where
  "Config_params =
     [\<lparr>name = ''pop_size'', value_type = TInt, default_value = None\<rparr>,
      \<lparr>name = ''fitness_criterion'', value_type = TStr, default_value = None\<rparr>,
      \<lparr>name = ''fitness_threshold'', value_type = TFloat, default_value = None\<rparr>,
      \<lparr>name = ''reset_on_extinction'', value_type = TBool, default_value = None\<rparr>,
      \<lparr>name = ''no_fitness_termination'', value_type = TBool, default_value = Some (VBool False)\<rparr>]"

text \<open>What \<^verbatim>\<open>except (Error, RuntimeError)\<close> catches.\<close>

fun is_Error_or_RuntimeError :: "'f exn \<Rightarrow> bool" where
  "is_Error_or_RuntimeError NoSectionError = True"
| "is_Error_or_RuntimeError NoOptionError = True"
| "is_Error_or_RuntimeError InterpolationError = True"
| "is_Error_or_RuntimeError ParsingError = True"
| "is_Error_or_RuntimeError (RuntimeError m) = True"
| "is_Error_or_RuntimeError (RuntimeError_interpreting n v t) = True"
| "is_Error_or_RuntimeError (RuntimeError_unexpected_type t) = True"
| "is_Error_or_RuntimeError _ = False"

text \<open>
  The loop of lines 204 to 216, the attributes set so far as an accumulator. \<^verbatim>\<open>parse\<close> never
  returns \<^verbatim>\<open>None\<close>, so the test of line 210 never holds.
\<close>

fun parse_params ::
  "'f builtins \<Rightarrow> ConfigParser \<Rightarrow> 'f ConfigParameter list \<Rightarrow> (string \<rightharpoonup> 'f pyval) \<Rightarrow>
   'f warning list \<times> ('f exn + (string \<rightharpoonup> 'f pyval))" where
  "parse_params py parameters [] a = ([], Inr a)"
| "parse_params py parameters (p # ps) a =
     (case default_value p of
        None \<Rightarrow>
          (case parse py p ''NEAT'' parameters of
             Inl e \<Rightarrow> ([], Inl e)
           | Inr v \<Rightarrow> parse_params py parameters ps (a(name p \<mapsto> v)))
      | Some d \<Rightarrow>
          (case parse py p ''NEAT'' parameters of
             Inr v \<Rightarrow> parse_params py parameters ps (a(name p \<mapsto> v))
           | Inl e \<Rightarrow>
               if is_Error_or_RuntimeError e then
                 (case parse_params py parameters ps (a(name p \<mapsto> d)) of
                    (ws, r) \<Rightarrow> (UsingDefault d (name p) # ws, r))
               else ([], Inl e)))"

text \<open>
  A component type: its \<^verbatim>\<open>__name__\<close> and its class methods, \<open>None\<close> when the attribute is
  missing. The configuration objects of the four components share the type \<open>'c\<close>.
\<close>

record ('f, 'c) component_type =
  type_name :: string
  parse_config :: "(config_dict \<Rightarrow> 'f warning list \<times> ('f exn + 'c)) option"
  write_config :: "('c \<Rightarrow> 'f written) option"

record ('f, 'c) Config =
  genome_type :: "('f, 'c) component_type"
  reproduction_type :: "('f, 'c) component_type"
  species_set_type :: "('f, 'c) component_type"
  stagnation_type :: "('f, 'c) component_type"
  neat_attrs :: "string \<rightharpoonup> 'f pyval"
  genome_config :: 'c
  species_set_config :: 'c
  stagnation_config :: 'c
  reproduction_config :: 'c

text \<open>Sequencing of steps that warn and may raise.\<close>

fun and_then ::
  "'f warning list \<times> ('f exn + 'a) \<Rightarrow> ('a \<Rightarrow> 'f warning list \<times> ('f exn + 'b)) \<Rightarrow>
   'f warning list \<times> ('f exn + 'b)" where
  "and_then (ws, Inl e) k = (ws, Inl e)"
| "and_then (ws, Inr x) k = (case k x of (ws', r) \<Rightarrow> (ws @ ws', r))"

text \<open>Lines 217 to 224.\<close>

definition check_unknown_NEAT :: "ConfigParser \<Rightarrow> 'f warning list \<times> ('f exn + unit)" where
  "check_unknown_NEAT parameters =
     (case cp_items parameters ''NEAT'' of
        Inl e \<Rightarrow> ([], Inl e)
      | Inr its \<Rightarrow>
          (let param_dict = dict its;
               unknown = unknown_list param_dict (map name (Config_params :: 'f ConfigParameter list)) in
           if unknown \<noteq> [] then
             if length unknown > 1 then
               ([], Inl (UnknownConfigItemError
                  (''Unknown (section 'NEAT') configuration items:\<newline>''
                   @ join [CHR ''\<newline>'', CHR 0x09] unknown)))
             else
               ([], Inl (UnknownConfigItemError
                  (''Unknown (section 'NEAT') configuration item '' @ unknown ! 0)))
           else ([], Inr ())))"

text \<open>
  One of the four steps of lines 228 to 238:
  \<^verbatim>\<open>t.parse_config(dict(parameters.items(t.__name__)))\<close>.
\<close>

definition parse_section ::
  "ConfigParser \<Rightarrow> ('f, 'c) component_type \<Rightarrow> 'f warning list \<times> ('f exn + 'c)" where
  "parse_section parameters t =
     (case cp_items parameters (type_name t) of
        Inl e \<Rightarrow> ([], Inl e)
      | Inr its \<Rightarrow>
          (case parse_config t of
             None \<Rightarrow> ([], Inl AttributeError)
           | Some f \<Rightarrow> f (dict its)))"

text \<open>
  \<^verbatim>\<open>Config.__init__\<close>, its arguments in the order of the source. The file system maps a path to \<open>None\<close> when it is not a file, and
  otherwise to what reading it gives: the parsed file, or the exception of \<^verbatim>\<open>read_file\<close>.
\<close>

definition Config_init ::
  "'f builtins \<Rightarrow> ('f, 'c) component_type \<Rightarrow> ('f, 'c) component_type \<Rightarrow>
   ('f, 'c) component_type \<Rightarrow> ('f, 'c) component_type \<Rightarrow>
   (string \<rightharpoonup> 'f exn + ConfigParser) \<Rightarrow> string \<Rightarrow>
   'f warning list \<times> ('f exn + ('f, 'c) Config)" where
  "Config_init py =
     (\<lambda>genome_type reproduction_type species_set_type stagnation_type fs filename.
      if Option.is_none (parse_config genome_type) then ([], Inl AssertionError)
      else if Option.is_none (parse_config reproduction_type) then ([], Inl AssertionError)
      else if Option.is_none (parse_config species_set_type) then ([], Inl AssertionError)
      else if Option.is_none (parse_config stagnation_type) then ([], Inl AssertionError)
      else
        (case fs filename of
           None \<Rightarrow> ([], Inl (Exception_no_such_config_file filename))
         | Some (Inl e) \<Rightarrow> ([], Inl e)
         | Some (Inr parameters) \<Rightarrow>
             if \<not> has_section parameters ''NEAT'' then
               ([], Inl (RuntimeError '''NEAT' section not found in NEAT configuration file.''))
             else
               and_then (parse_params py parameters Config_params Map.empty) (\<lambda>a.
               and_then (check_unknown_NEAT parameters) (\<lambda>_.
               and_then (parse_section parameters genome_type) (\<lambda>genome_config.
               and_then (parse_section parameters species_set_type) (\<lambda>species_set_config.
               and_then (parse_section parameters stagnation_type) (\<lambda>stagnation_config.
               and_then (parse_section parameters reproduction_type) (\<lambda>reproduction_config.
                 ([], Inr \<lparr>genome_type = genome_type,
                           reproduction_type = reproduction_type,
                           species_set_type = species_set_type,
                           stagnation_type = stagnation_type,
                           neat_attrs = a,
                           genome_config = genome_config,
                           species_set_config = species_set_config,
                           stagnation_config = stagnation_config,
                           reproduction_config = reproduction_config\<rparr>)))))))))"

text \<open>
  One of the four steps of lines 247 to 257: the header, then the component's writer.
\<close>

definition write_section :: "('f, 'c) component_type \<Rightarrow> 'c \<Rightarrow> 'f written" where
  "write_section t c =
     wseq ([''\<newline>['' @ type_name t @ '']\<newline>''], None)
       (case write_config t of
          None \<Rightarrow> ([], Some AttributeError)
        | Some w \<Rightarrow> w c)"

text \<open>\<^verbatim>\<open>Config.save\<close>: what is written to the opened file.\<close>

definition save :: "'f builtins \<Rightarrow> ('f, 'c) Config \<Rightarrow> 'f written" where
  "save py self =
     wseq ([''# The `NEAT` section specifies parameters particular to the NEAT algorithm\<newline>'',
            ''# or the experiment itself.  This is the only required section.\<newline>'',
            ''[NEAT]\<newline>''], None)
    (wseq (write_pretty_params py (neat_attrs self) Config_params)
    (wseq (write_section (genome_type self) (genome_config self))
    (wseq (write_section (species_set_type self) (species_set_config self))
    (wseq (write_section (stagnation_type self) (stagnation_config self))
          (write_section (reproduction_type self) (reproduction_config self))))))"

section \<open>AggregationFunctionSet\<close>

text \<open>
  \<^verbatim>\<open>multiparameterset\<close> is an object of \<^verbatim>\<open>neat.multiparameter\<close>, which is not among the
  sources: its method \<^verbatim>\<open>get_func\<close> is a parameter, a step on the state \<open>'s\<close> of that object
  which warns, and returns a function or raises.
\<close>

record ('f, 's, 'fn) AggregationFunctionSet =
  get_func :: "string \<Rightarrow> string \<Rightarrow> 's \<Rightarrow> ('f warning list \<times> ('f exn + 'fn)) \<times> 's"

definition get ::
  "('f, 's, 'fn) AggregationFunctionSet \<Rightarrow> string \<Rightarrow> 's \<Rightarrow>
   ('f warning list \<times> ('f exn + 'fn)) \<times> 's" where
  "get self = (\<lambda>name. get_func self name ''aggregation'')"

definition getitem ::
  "('f, 's, 'fn) AggregationFunctionSet \<Rightarrow> string \<Rightarrow> 's \<Rightarrow>
   ('f warning list \<times> ('f exn + 'fn)) \<times> 's" where
  "getitem self index s =
     (case get self index s of
        ((ws, r), s') \<Rightarrow> ((UseGetNotIndexing index # ws, r), s'))"

section \<open>Sample data\<close>

text \<open>
  A runtime for the examples: integer literals are plain decimal digits, and a float is kept
  as the text it was read from.
\<close>

fun decimal :: "string \<Rightarrow> nat \<Rightarrow> nat option" where
  "decimal [] acc = Some acc"
| "decimal (c # cs) acc =
     (let n = (of_char c :: nat) in
      if 48 \<le> n \<and> n \<le> 57 then decimal cs (10 * acc + (n - 48)) else None)"

definition example_py :: "string builtins" where
  "example_py =
     \<lparr>int_of_str = (\<lambda>s. if s = [] then None else map_option int (decimal s 0)),
      int_of_float = (\<lambda>x. None),
      float_of_str = (\<lambda>s. if s = [] then None else Some s),
      float_of_int = (\<lambda>i. Some (str_of_int i)),
      str_of_float = (\<lambda>x. x),
      str_of_list = (\<lambda>xs. join '', '' xs)\<rparr>"

text \<open>
  A component type built on \<^verbatim>\<open>DefaultClassConfig\<close>, as the species set, stagnation and
  reproduction classes are.
\<close>

definition default_component ::
  "'f builtins \<Rightarrow> string \<Rightarrow> 'f ConfigParameter list \<Rightarrow> ('f, 'f DefaultClassConfig) component_type" where
  "default_component py n ps =
     \<lparr>type_name = n,
      parse_config = Some (\<lambda>param_dict. DefaultClassConfig_init py param_dict ps),
      write_config = Some (DefaultClassConfig_write_config py)\<rparr>"

definition example_file :: ConfigParser where
  "example_file =
     [(''NEAT'',
         [(''pop_size'', Text ''150''),
          (''fitness_criterion'', Text ''max''),
          (''fitness_threshold'', Text ''3.9''),
          (''reset_on_extinction'', Text ''False'')]),
      (''G'', [(''num_inputs'', Text ''2'')]),
      (''R'', [(''elitism'', Text ''2'')]),
      (''S'', [(''compatibility_threshold'', Text ''3.0'')]),
      (''T'', [(''species_fitness_func'', Text ''max'')])]"

definition example_fs :: "string \<rightharpoonup> string exn + ConfigParser" where
  "example_fs = [''config'' \<mapsto> Inr example_file]"

definition example_G :: "(string, string DefaultClassConfig) component_type" where
  "example_G =
     default_component example_py ''G''
       [\<lparr>name = ''num_inputs'', value_type = TInt, default_value = None\<rparr>]"

definition example_R :: "(string, string DefaultClassConfig) component_type" where
  "example_R =
     default_component example_py ''R''
       [\<lparr>name = ''elitism'', value_type = TInt, default_value = Some (VInt 0)\<rparr>]"

definition example_S :: "(string, string DefaultClassConfig) component_type" where
  "example_S =
     default_component example_py ''S''
       [\<lparr>name = ''compatibility_threshold'', value_type = TFloat, default_value = None\<rparr>]"

definition example_T :: "(string, string DefaultClassConfig) component_type" where
  "example_T =
     default_component example_py ''T''
       [\<lparr>name = ''species_fitness_func'', value_type = TStr, default_value = Some (VStr ''mean'')\<rparr>]"

text \<open>A file whose \<^verbatim>\<open>NEAT\<close> section has two misspelt keys, and no other section.\<close>

definition example_file_unknown :: ConfigParser where
  "example_file_unknown =
     [(''NEAT'',
         [(''pop_size'', Text ''150''),
          (''fitness_criterion'', Text ''max''),
          (''fitness_threshold'', Text ''3.9''),
          (''reset_on_extinction'', Text ''False''),
          (''popsize'', Text ''150''),
          (''fitness_treshold'', Text ''3.9'')])]"

text \<open>
  The first file with the option \<^verbatim>\<open>no_fitness_termination\<close> added: once with a text that is
  no boolean word, once with a text that cannot be interpolated.
\<close>

definition example_file_malformed :: ConfigParser where
  "example_file_malformed =
     (''NEAT'',
         [(''pop_size'', Text ''150''),
          (''fitness_criterion'', Text ''max''),
          (''fitness_threshold'', Text ''3.9''),
          (''reset_on_extinction'', Text ''False''),
          (''no_fitness_termination'', Text ''maybe'')]) # tl example_file"

definition example_file_uninterpolable :: ConfigParser where
  "example_file_uninterpolable =
     (''NEAT'',
         [(''pop_size'', Text ''150''),
          (''fitness_criterion'', Text ''max''),
          (''fitness_threshold'', Text ''3.9''),
          (''reset_on_extinction'', Text ''False''),
          (''no_fitness_termination'', BadInterpolation)]) # tl example_file"

text \<open>
  A file whose \<^verbatim>\<open>NEAT\<close> section has a malformed \<^verbatim>\<open>pop_size\<close> and a misspelt key.
\<close>

definition example_file_malformed_unknown :: ConfigParser where
  "example_file_malformed_unknown =
     [(''NEAT'',
         [(''pop_size'', Text ''many''),
          (''fitness_criterion'', Text ''max''),
          (''fitness_threshold'', Text ''3.9''),
          (''reset_on_extinction'', Text ''False''),
          (''popsize'', Text ''150'')])]"

section \<open>Properties of ConfigParameter\<close>

lemma split_no_sep: "sep \<notin> set t \<Longrightarrow> split sep t = [t]"
  by (induction t) auto

lemma split_token_then_sep:
  "sep \<notin> set t \<Longrightarrow> split sep (t @ sep # rest) = t # split sep rest"
  by (induction t) auto

lemma split_join:
  "xs \<noteq> [] \<Longrightarrow> \<forall>t\<in>set xs. sep \<notin> set t \<Longrightarrow> split sep (join [sep] xs) = xs"
  by (induction "[sep]" xs rule: join.induct) (auto simp: split_no_sep split_token_then_sep)




text \<open>What \<open>interpret\<close> gives for a Bool descriptor whose name is present.\<close>

lemma interpret_param_bool_present:
  assumes "value_type p = TBool" and "map_of config_dict (name p) = Some s"
  shows "interpret_param py p config_dict =
           ([], if lower s = ''true'' then Inr (VBool True)
                else if lower s = ''false'' then Inr (VBool False)
                else Inl (RuntimeError_interpreting (name p) (VStr s) TBool))"
  using assms by (simp add: interpret_param_def interpret_value_def interpret_try_def)

text \<open>
  C2. A Bool descriptor maps a present \<^verbatim>\<open>"True"\<close> to true and \<^verbatim>\<open>"false"\<close> to false. For the literal
  \<^verbatim>\<open>"maybe"\<close> the error raised is the general ``Error interpreting config item'' one: the
  ``must be True or False'' error is raised inside the \<^verbatim>\<open>try\<close> block and replaced by its handler.
\<close>

theorem interpret_param_bool_literals:
  "snd (interpret_param example_py
          \<lparr>name = ''reset_on_extinction'', value_type = TBool, default_value = None\<rparr>
          [(''reset_on_extinction'', ''True'')]) = Inr (VBool True)
   \<and> snd (interpret_param example_py
          \<lparr>name = ''reset_on_extinction'', value_type = TBool, default_value = None\<rparr>
          [(''reset_on_extinction'', ''false'')]) = Inr (VBool False)
   \<and> interpret_param example_py
          \<lparr>name = ''reset_on_extinction'', value_type = TBool, default_value = None\<rparr>
          [(''reset_on_extinction'', ''maybe'')]
       = ([], Inl (RuntimeError_interpreting ''reset_on_extinction'' (VStr ''maybe'') TBool))
   \<and> snd (interpret_param example_py
          \<lparr>name = ''reset_on_extinction'', value_type = TBool, default_value = None\<rparr>
          [(''reset_on_extinction'', ''maybe'')])
       \<noteq> Inl (RuntimeError ''reset_on_extinction must be True or False'')"
  by code_simp

text \<open>
  C7, as stated, fails for the empty list: it is formatted as the empty string, which is
  split into the list holding one empty token.
\<close>

theorem stringlist_empty_roundtrip_counterexample:
  "format example_py \<lparr>name = ''x'', value_type = TList, default_value = None\<rparr> (VList [])
     = Inr ''''
   \<and> interpret_param example_py \<lparr>name = ''x'', value_type = TList, default_value = None\<rparr>
        [(''x'', '''')] = ([], Inr (VList ['''']))
   \<and> VList [''''] \<noteq> (VList [] :: string pyval)"
  by code_simp

text \<open>
  C7, amended. A StringList descriptor interprets a present raw value by splitting it at
  every single space (\<^verbatim>\<open>"a b c"\<close> gives three tokens) and formats a list by joining it with
  single spaces; for every non-empty list of tokens without a space, interpreting the
  formatted string gives the list back.
\<close>

theorem stringlist_roundtrip:
  assumes "value_type p = TList"
  shows "(map_of config_dict (name p) = Some s \<longrightarrow>
            interpret_param py p config_dict = ([], Inr (VList (split CHR '' '' s))))
       \<and> format py p (VList xs) = Inr (join '' '' xs)
       \<and> split CHR '' '' ''a b c'' = [''a'', ''b'', ''c'']
       \<and> join '' '' [''a'', ''b'', ''c''] = ''a b c''
       \<and> (xs \<noteq> [] \<longrightarrow> (\<forall>t\<in>set xs. CHR '' '' \<notin> set t) \<longrightarrow>
            map_of config_dict (name p) = Some (join '' '' xs) \<longrightarrow>
            interpret_param py p config_dict = ([], Inr (VList xs)))"
  using assms split_join [of xs "CHR '' ''"]
  by (simp add: interpret_param_def interpret_value_def interpret_try_def format_def)

theorem stringlist_roundtrip_witness:
  "format example_py \<lparr>name = ''x'', value_type = TList, default_value = None\<rparr>
      (VList [''a'', ''b'', ''c'']) = Inr ''a b c''
   \<and> interpret_param example_py \<lparr>name = ''x'', value_type = TList, default_value = None\<rparr>
        [(''x'', ''a b c'')] = ([], Inr (VList [''a'', ''b'', ''c'']))"
  using stringlist_roundtrip [of "\<lparr>name = ''x'', value_type = TList, default_value = None\<rparr>"
      "[(''x'', ''a b c'')]" "''a b c''" example_py "[''a'', ''b'', ''c'']"]
  by simp

section \<open>Unknown configuration items\<close>

lemma set_unknown_list:
  "set (unknown_list param_dict names) = {k \<in> fst ` set param_dict. k \<notin> set names}"
  by (auto simp: unknown_list_def iterkeys_def)

text \<open>
  C3, as stated, fails when a descriptor of the schema cannot be interpreted: the loop over
  the schema runs first. With the schema \<^verbatim>\<open>[a: int]\<close>, the mapping whose only key is the
  unknown \<^verbatim>\<open>b\<close> fails with ``Missing configuration item: a'', and the mapping with a
  malformed \<^verbatim>\<open>a\<close> and the unknown \<^verbatim>\<open>b\<close> fails with the interpretation error of \<^verbatim>\<open>a\<close>.
\<close>

theorem unknown_items_counterexample:
  "unknown_list [(''b'', ''1'')] [''a''] = [''b'']
   \<and> DefaultClassConfig_init example_py [(''b'', ''1'')]
        [\<lparr>name = ''a'', value_type = TInt, default_value = None\<rparr>]
      = ([], Inl (RuntimeError ''Missing configuration item: a''))
   \<and> unknown_list [(''a'', ''x''), (''b'', ''1'')] [''a''] = [''b'']
   \<and> DefaultClassConfig_init example_py [(''a'', ''x''), (''b'', ''1'')]
        [\<lparr>name = ''a'', value_type = TInt, default_value = None\<rparr>]
      = ([], Inl (RuntimeError_interpreting ''a'' (VStr ''x'') TInt))"
proof -
  have i: "interpret_param example_py
      \<lparr>name = ''a'', value_type = TInt, default_value = None\<rparr> [(''a'', ''x''), (''b'', ''1'')]
     = ([], Inl (RuntimeError_interpreting ''a'' (VStr ''x'') TInt))"
    by code_simp
  have u: "unknown_list [(''a'', ''x''), (''b'', ''1'')] [''a''] = [''b'']"
    by code_simp
  have "DefaultClassConfig_init example_py [(''a'', ''x''), (''b'', ''1'')]
        [\<lparr>name = ''a'', value_type = TInt, default_value = None\<rparr>]
      = ([], Inl (RuntimeError_interpreting ''a'' (VStr ''x'') TInt))"
    by (simp add: DefaultClassConfig_init_def i)
  with u show ?thesis
    by (simp add: unknown_list_def iterkeys_def DefaultClassConfig_init_def interpret_param_def)
qed

text \<open>A failure of the loop over the schema is the failure of the whole operation.\<close>

lemma interpret_params_fail_first:
  "snd (interpret_params py param_dict param_list Map.empty) = Inl e \<Longrightarrow>
   DefaultClassConfig_init py param_dict param_list
     = (fst (interpret_params py param_dict param_list Map.empty), Inl e)"
  by (cases "interpret_params py param_dict param_list Map.empty")
     (simp add: DefaultClassConfig_init_def)

lemma parse_params_fail_first:
  assumes "\<not> Option.is_none (parse_config gt)" "\<not> Option.is_none (parse_config rt)"
    "\<not> Option.is_none (parse_config st)" "\<not> Option.is_none (parse_config tt)"
    "fs filename = Some (Inr parameters)" "has_section parameters ''NEAT''"
    "snd (parse_params py parameters Config_params Map.empty) = Inl e"
  shows "Config_init py gt rt st tt fs filename
          = (fst (parse_params py parameters Config_params Map.empty), Inl e)"
  using assms
  by (cases "parse_params py parameters Config_params Map.empty")
     (simp add: Config_init_def)

text \<open>
  C3, amended. When every descriptor of the schema is interpreted successfully and the list
  of mapping keys named by no descriptor is \<open>u # us\<close>, \<^verbatim>\<open>DefaultClassConfig.__init__\<close> fails
  with \<^verbatim>\<open>UnknownConfigItemError\<close>: the singular message naming \<open>u\<close> when \<open>us\<close> is empty, the
  plural message listing \<open>u # us\<close>, joined by a line break and a tab, otherwise. The same holds
  for \<^verbatim>\<open>Config.__init__\<close> and the keys of the \<^verbatim>\<open>NEAT\<close> section once every global parameter is
  resolved, with the section named in the message. The list holds exactly the keys of the
  mapping that no descriptor names. When the loop over the schema (for \<^verbatim>\<open>Config.__init__\<close>,
  over the global parameters) fails with \<open>e\<close>, the operation fails with \<open>e\<close>, whatever the
  unknown keys.
\<close>

theorem unknown_items_rejected:
  "(\<not> isl (snd (interpret_params (py :: 'f builtins) param_dict param_list Map.empty)) \<longrightarrow>
      unknown_list param_dict (map name param_list) = u # us \<longrightarrow>
      DefaultClassConfig_init py param_dict param_list =
        (fst (interpret_params py param_dict param_list Map.empty),
         Inl (UnknownConfigItemError
           (if us = [] then ''Unknown configuration item '' @ u
            else ''Unknown configuration items:\<newline>'' @ join [CHR ''\<newline>'', CHR 0x09] (u # us)))))
   \<and> (\<not> Option.is_none (parse_config gt) \<longrightarrow> \<not> Option.is_none (parse_config rt) \<longrightarrow>
      \<not> Option.is_none (parse_config st) \<longrightarrow> \<not> Option.is_none (parse_config tt) \<longrightarrow>
      fs filename = Some (Inr parameters) \<longrightarrow>
      has_section parameters ''NEAT'' \<longrightarrow>
      \<not> isl (snd (parse_params py parameters Config_params Map.empty)) \<longrightarrow>
      cp_items parameters ''NEAT'' = (Inr its :: 'f exn + _) \<longrightarrow>
      unknown_list (dict its) (map name (Config_params :: 'f ConfigParameter list)) = u # us \<longrightarrow>
      Config_init py gt rt st tt fs filename =
        (fst (parse_params py parameters Config_params Map.empty),
         Inl (UnknownConfigItemError
           (if us = [] then ''Unknown (section 'NEAT') configuration item '' @ u
            else ''Unknown (section 'NEAT') configuration items:\<newline>''
                 @ join [CHR ''\<newline>'', CHR 0x09] (u # us)))))
   \<and> set (unknown_list param_dict names) = {k \<in> fst ` set param_dict. k \<notin> set names}
   \<and> (snd (interpret_params py param_dict param_list Map.empty) = Inl e \<longrightarrow>
      DefaultClassConfig_init py param_dict param_list =
        (fst (interpret_params py param_dict param_list Map.empty), Inl e))
   \<and> (\<not> Option.is_none (parse_config gt) \<longrightarrow> \<not> Option.is_none (parse_config rt) \<longrightarrow>
      \<not> Option.is_none (parse_config st) \<longrightarrow> \<not> Option.is_none (parse_config tt) \<longrightarrow>
      fs filename = Some (Inr parameters) \<longrightarrow>
      has_section parameters ''NEAT'' \<longrightarrow>
      snd (parse_params py parameters Config_params Map.empty) = Inl e \<longrightarrow>
      Config_init py gt rt st tt fs filename =
        (fst (parse_params py parameters Config_params Map.empty), Inl e))"
proof (intro conjI impI)
  assume ok: "\<not> isl (snd (interpret_params py param_dict param_list Map.empty))"
    and u: "unknown_list param_dict (map name param_list) = u # us"
  obtain ws r where r: "interpret_params py param_dict param_list Map.empty = (ws, r)"
    by (cases "interpret_params py param_dict param_list Map.empty")
  with ok obtain a where "r = Inr a" by (cases r) auto
  with r u show "DefaultClassConfig_init py param_dict param_list =
        (fst (interpret_params py param_dict param_list Map.empty),
         Inl (UnknownConfigItemError
           (if us = [] then ''Unknown configuration item '' @ u
            else ''Unknown configuration items:\<newline>'' @ join [CHR ''\<newline>'', CHR 0x09] (u # us))))"
    by (cases us) (simp_all add: DefaultClassConfig_init_def)
next
  assume a: "\<not> Option.is_none (parse_config gt)" "\<not> Option.is_none (parse_config rt)"
    "\<not> Option.is_none (parse_config st)" "\<not> Option.is_none (parse_config tt)"
    "fs filename = Some (Inr parameters)" "has_section parameters ''NEAT''"
    and ok: "\<not> isl (snd (parse_params py parameters Config_params Map.empty))"
    and its: "cp_items parameters ''NEAT'' = (Inr its :: 'f exn + _)"
    and u: "unknown_list (dict its) (map name (Config_params :: 'f ConfigParameter list)) = u # us"
  obtain ws r where r: "parse_params py parameters Config_params Map.empty = (ws, r)"
    by (cases "parse_params py parameters Config_params Map.empty")
  with ok obtain at where at: "r = Inr at" by (cases r) auto
  have "check_unknown_NEAT parameters =
      ([], Inl (UnknownConfigItemError
           (if us = [] then ''Unknown (section 'NEAT') configuration item '' @ u
            else ''Unknown (section 'NEAT') configuration items:\<newline>''
                 @ join [CHR ''\<newline>'', CHR 0x09] (u # us))) :: 'f exn + unit)"
    using its u by (cases us) (simp_all add: check_unknown_NEAT_def)
  with a r at show "Config_init py gt rt st tt fs filename =
        (fst (parse_params py parameters Config_params Map.empty),
         Inl (UnknownConfigItemError
           (if us = [] then ''Unknown (section 'NEAT') configuration item '' @ u
            else ''Unknown (section 'NEAT') configuration items:\<newline>''
                 @ join [CHR ''\<newline>'', CHR 0x09] (u # us))))"
    by (simp add: Config_init_def)
next
  show "set (unknown_list param_dict names) = {k \<in> fst ` set param_dict. k \<notin> set names}"
    by (rule set_unknown_list)
next
  assume "snd (interpret_params py param_dict param_list Map.empty) = Inl e"
  then show "DefaultClassConfig_init py param_dict param_list =
        (fst (interpret_params py param_dict param_list Map.empty), Inl e)"
    by (rule interpret_params_fail_first)
next
  assume "\<not> Option.is_none (parse_config gt)" "\<not> Option.is_none (parse_config rt)"
    "\<not> Option.is_none (parse_config st)" "\<not> Option.is_none (parse_config tt)"
    "fs filename = Some (Inr parameters)" "has_section parameters ''NEAT''"
    "snd (parse_params py parameters Config_params Map.empty) = Inl e"
  then show "Config_init py gt rt st tt fs filename =
        (fst (parse_params py parameters Config_params Map.empty), Inl e)"
    by (rule parse_params_fail_first)
qed


theorem unknown_items_rejected_witness:
  "DefaultClassConfig_init example_py [(''a'', ''1''), (''b'', ''1'')]
      [\<lparr>name = ''a'', value_type = TInt, default_value = None\<rparr>]
     = ([], Inl (UnknownConfigItemError ''Unknown configuration item b''))
   \<and> Config_init example_py example_G example_R example_S example_T
        [''config'' \<mapsto> Inr example_file_unknown] ''config''
     = ([UsingDefault (VBool False) ''no_fitness_termination''],
        Inl (UnknownConfigItemError
          (''Unknown (section 'NEAT') configuration items:\<newline>popsize\<newline>''
           @ CHR 0x09 # ''fitness_treshold'')))
   \<and> DefaultClassConfig_init example_py [(''a'', ''x''), (''b'', ''1'')]
      [\<lparr>name = ''a'', value_type = TInt, default_value = None\<rparr>]
     = ([], Inl (RuntimeError_interpreting ''a'' (VStr ''x'') TInt))
   \<and> Config_init example_py example_G example_R example_S example_T
        [''config'' \<mapsto> Inr example_file_malformed_unknown] ''config''
     = ([], Inl ValueError)"
proof -
  let ?ps = "[\<lparr>name = ''a'', value_type = TInt, default_value = None :: string pyval option\<rparr>]"
  let ?d = "[(''a'', ''1''), (''b'', ''1'')]"
  have a1: "\<not> isl (snd (interpret_params example_py ?d ?ps Map.empty))"
    by code_simp
  have a2: "fst (interpret_params example_py ?d ?ps Map.empty) = []"
    by code_simp
  have a3: "unknown_list ?d (map name ?ps) = ''b'' # []"
    by code_simp
  have b1: "\<not> Option.is_none (parse_config example_G)" "\<not> Option.is_none (parse_config example_R)"
    "\<not> Option.is_none (parse_config example_S)" "\<not> Option.is_none (parse_config example_T)"
    by (simp_all add: example_G_def example_R_def example_S_def example_T_def default_component_def)
  have b2: "has_section example_file_unknown ''NEAT''"
    by code_simp
  have b3: "\<not> isl (snd (parse_params example_py example_file_unknown Config_params Map.empty))"
    by code_simp
  have b4: "fst (parse_params example_py example_file_unknown Config_params Map.empty)
              = [UsingDefault (VBool False) ''no_fitness_termination'']"
    by code_simp
  have b5: "cp_items example_file_unknown ''NEAT''
              = (Inr [(''pop_size'', ''150''), (''fitness_criterion'', ''max''),
                     (''fitness_threshold'', ''3.9''), (''reset_on_extinction'', ''False''),
                     (''popsize'', ''150''), (''fitness_treshold'', ''3.9'')] :: string exn + _)"
    by code_simp
  have b6: "unknown_list (dict [(''pop_size'', ''150''), (''fitness_criterion'', ''max''),
                     (''fitness_threshold'', ''3.9''), (''reset_on_extinction'', ''False''),
                     (''popsize'', ''150''), (''fitness_treshold'', ''3.9'')])
              (map name (Config_params :: string ConfigParameter list))
            = ''popsize'' # [''fitness_treshold'']"
    by code_simp
  have b0: "[''config'' \<mapsto> Inr example_file_unknown] ''config''
              = Some (Inr example_file_unknown :: string exn + _)"
    by simp
  have A: "DefaultClassConfig_init example_py ?d ?ps =
        (fst (interpret_params example_py ?d ?ps Map.empty),
         Inl (UnknownConfigItemError
           (if [] = ([] :: string list) then ''Unknown configuration item '' @ ''b''
            else ''Unknown configuration items:\<newline>''
                 @ join [CHR ''\<newline>'', CHR 0x09] (''b'' # []))))"
    using unknown_items_rejected [where py = example_py and param_dict = ?d and param_list = ?ps
        and u = "''b''" and us = "[]", THEN conjunct1] a1 a3
    by blast
  have B: "Config_init example_py example_G example_R example_S example_T
        [''config'' \<mapsto> Inr example_file_unknown] ''config'' =
        (fst (parse_params example_py example_file_unknown Config_params Map.empty),
         Inl (UnknownConfigItemError
           (if [''fitness_treshold''] = [] then ''Unknown (section 'NEAT') configuration item '' @ ''popsize''
            else ''Unknown (section 'NEAT') configuration items:\<newline>''
                 @ join [CHR ''\<newline>'', CHR 0x09] (''popsize'' # [''fitness_treshold'']))))"
    using unknown_items_rejected [where py = example_py and gt = example_G and rt = example_R
        and st = example_S
        and tt = example_T and fs = "[''config'' \<mapsto> Inr example_file_unknown]"
        and filename = "''config''" and parameters = example_file_unknown
        and u = "''popsize''" and us = "[''fitness_treshold'']"
        and its = "[(''pop_size'', ''150''), (''fitness_criterion'', ''max''),
                     (''fitness_threshold'', ''3.9''), (''reset_on_extinction'', ''False''),
                     (''popsize'', ''150''), (''fitness_treshold'', ''3.9'')]",
        THEN conjunct2, THEN conjunct1]
      b0 b1 b2 b3 b5 b6
    by blast
  let ?d' = "[(''a'', ''x''), (''b'', ''1'')]"
  have i: "interpret_param example_py
      \<lparr>name = ''a'', value_type = TInt, default_value = None\<rparr> ?d'
     = ([], Inl (RuntimeError_interpreting ''a'' (VStr ''x'') TInt))"
    by code_simp
  have c1: "snd (interpret_params example_py ?d' ?ps Map.empty)
              = Inl (RuntimeError_interpreting ''a'' (VStr ''x'') TInt)"
    and c2: "fst (interpret_params example_py ?d' ?ps Map.empty) = []"
    by (simp_all add: i)
  have C: "DefaultClassConfig_init example_py ?d' ?ps =
        (fst (interpret_params example_py ?d' ?ps Map.empty),
         Inl (RuntimeError_interpreting ''a'' (VStr ''x'') TInt))"
    using unknown_items_rejected [where py = example_py and param_dict = ?d'
        and param_list = ?ps and e = "RuntimeError_interpreting ''a'' (VStr ''x'') TInt",
        THEN conjunct2, THEN conjunct2, THEN conjunct2, THEN conjunct1] c1
    by blast
  have d0: "[''config'' \<mapsto> Inr example_file_malformed_unknown] ''config''
              = Some (Inr example_file_malformed_unknown :: string exn + _)"
    by simp
  have d2: "has_section example_file_malformed_unknown ''NEAT''"
    by code_simp
  have p: "parse example_py \<lparr>name = ''pop_size'', value_type = TInt, default_value = None\<rparr>
             ''NEAT'' example_file_malformed_unknown = Inl ValueError"
    by code_simp
  have d3: "snd (parse_params example_py example_file_malformed_unknown Config_params Map.empty)
              = Inl ValueError"
    and d4: "fst (parse_params example_py example_file_malformed_unknown Config_params Map.empty)
              = []"
    by (simp_all add: Config_params_def p)
  have D: "Config_init example_py example_G example_R example_S example_T
        [''config'' \<mapsto> Inr example_file_malformed_unknown] ''config'' =
        (fst (parse_params example_py example_file_malformed_unknown Config_params Map.empty),
         Inl ValueError)"
    using unknown_items_rejected [where py = example_py and gt = example_G and rt = example_R
        and st = example_S and tt = example_T
        and fs = "[''config'' \<mapsto> Inr example_file_malformed_unknown]"
        and filename = "''config''" and parameters = example_file_malformed_unknown
        and e = ValueError,
        THEN conjunct2, THEN conjunct2, THEN conjunct2, THEN conjunct2]
      d0 b1 d2 d3
    by blast
  have A': "DefaultClassConfig_init example_py [(''a'', ''1''), (''b'', ''1'')]
      [\<lparr>name = ''a'', value_type = TInt, default_value = None\<rparr>]
     = ([], Inl (UnknownConfigItemError ''Unknown configuration item b''))"
    unfolding A a2 by simp
  have B': "Config_init example_py example_G example_R example_S example_T
        [''config'' \<mapsto> Inr example_file_unknown] ''config''
     = ([UsingDefault (VBool False) ''no_fitness_termination''],
        Inl (UnknownConfigItemError
          (''Unknown (section 'NEAT') configuration items:\<newline>popsize\<newline>''
           @ CHR 0x09 # ''fitness_treshold'')))"
    unfolding B b4 by simp
  have C': "DefaultClassConfig_init example_py [(''a'', ''x''), (''b'', ''1'')]
      [\<lparr>name = ''a'', value_type = TInt, default_value = None\<rparr>]
     = ([], Inl (RuntimeError_interpreting ''a'' (VStr ''x'') TInt))"
    unfolding C c2 by (rule refl)
  have D': "Config_init example_py example_G example_R example_S example_T
        [''config'' \<mapsto> Inr example_file_malformed_unknown] ''config''
     = ([], Inl ValueError)"
    unfolding D d4 by (rule refl)
  show ?thesis
    by (intro conjI) (rule A' B' C' D')+
qed

section \<open>Properties of write_pretty_params\<close>

lemma wseq_None: "wseq (a, None) w = (a @ fst w, snd w)"
  by (cases w) simp

lemma format_error: "format py p v = Inl e \<Longrightarrow> e = AssertionError"
  by (auto simp: format_def split: value_type.splits pyval.splits)

lemma write_param_lines_no_ValueError:
  "snd (write_param_lines py config w d ns) \<noteq> Some ValueError"
  by (induction ns) (auto simp: wseq_None dest: format_error split: option.splits sum.splits)

text \<open>
  C10. For the empty list of descriptors \<^verbatim>\<open>write_pretty_params\<close> raises \<^verbatim>\<open>ValueError\<close> and
  writes nothing, and so does \<^verbatim>\<open>DefaultClassConfig.write_config\<close> on a configuration with
  an empty schema, which \<^verbatim>\<open>DefaultClassConfig.__init__\<close> does build from the empty mapping.
  The schema of \<^verbatim>\<open>Config\<close> is not empty, and for a non-empty list that error does not occur.
\<close>

theorem write_pretty_params_empty:
  "write_pretty_params py config [] = ([], Some ValueError)
   \<and> DefaultClassConfig_write_config py \<lparr>params = [], attrs = a\<rparr> = ([], Some ValueError)
   \<and> DefaultClassConfig_init py [] [] = ([], Inr \<lparr>params = [], attrs = Map.empty\<rparr>)
   \<and> (Config_params :: 'f ConfigParameter list) \<noteq> []
   \<and> (ps \<noteq> [] \<longrightarrow> snd (write_pretty_params py config ps) \<noteq> Some ValueError)"
  by (cases ps)
     (simp_all add: write_pretty_params_def DefaultClassConfig_write_config_def
        DefaultClassConfig_init_def unknown_list_def iterkeys_def Config_params_def
        write_param_lines_no_ValueError)

theorem write_pretty_params_empty_witness:
  "write_pretty_params example_py [''a'' \<mapsto> VInt 1] [] = ([], Some ValueError)
   \<and> snd (write_pretty_params example_py [''a'' \<mapsto> VInt 1]
          [\<lparr>name = ''a'', value_type = TInt, default_value = None\<rparr>]) \<noteq> Some ValueError"
  using write_pretty_params_empty [where py = example_py and config = "[''a'' \<mapsto> VInt 1]"
      and ps = "[\<lparr>name = ''a'', value_type = TInt, default_value = None\<rparr>]"
      and a = Map.empty]
  by blast

lemma update_fresh: "k \<notin> fst ` set al \<Longrightarrow> AList.update k v al = al @ [(k, v)]"
  by (induction al) auto

lemma fold_update_distinct:
  "distinct (map fst (acc @ kvs)) \<Longrightarrow>
   fold (\<lambda>(k, v) d. AList.update k v d) kvs acc = acc @ kvs"
proof (induction kvs arbitrary: acc)
  case Nil
  then show ?case by simp
next
  case (Cons kv kvs)
  obtain k v where kv: "kv = (k, v)" by (cases kv)
  from Cons.prems kv have fresh: "k \<notin> fst ` set acc" by auto
  from Cons.prems kv have "distinct (map fst ((acc @ [(k, v)]) @ kvs))" by auto
  from Cons.IH [OF this] fresh kv show ?case by (simp add: update_fresh)
qed

lemma dict_distinct: "distinct (map fst kvs) \<Longrightarrow> dict kvs = kvs"
  using fold_update_distinct [of "[]" kvs] by (simp add: dict_def)

lemma map_insort_key: "map f (insort_key f x xs) = insort (f x) (map f xs)"
  by (induction xs) auto

lemma sort_map_key: "sort (map f xs) = map f (sort_key f xs)"
  by (induction xs) (simp_all add: map_insort_key)

lemma write_param_lines_ok:
  "\<forall>p\<in>set qs. map_of d (name p) = Some p \<and> config (name p) = Some (val p)
      \<and> format py p (val p) = Inr (fmt p) \<Longrightarrow>
   write_param_lines py config w d (map name qs)
     = (map (\<lambda>p. ljust (name p) w @ '' = '' @ fmt p @ ''\<newline>'') qs, None)"
  by (induction qs) (simp_all add: wseq_None)

text \<open>
  C6, as stated, fails on the side of the padding: the name \<^verbatim>\<open>a\<close>, shorter than \<^verbatim>\<open>bb\<close>, is
  written with the blank after it, not before it.
\<close>

theorem write_pretty_params_padding_counterexample:
  "fst (write_pretty_params example_py [''a'' \<mapsto> VInt 1, ''bb'' \<mapsto> VInt 2]
      [\<lparr>name = ''bb'', value_type = TInt, default_value = None\<rparr>,
       \<lparr>name = ''a'', value_type = TInt, default_value = None\<rparr>])
     = [''a  = 1\<newline>'', ''bb = 2\<newline>'']
   \<and> fst (write_pretty_params example_py [''a'' \<mapsto> VInt 1, ''bb'' \<mapsto> VInt 2]
      [\<lparr>name = ''bb'', value_type = TInt, default_value = None\<rparr>,
       \<lparr>name = ''a'', value_type = TInt, default_value = None\<rparr>])
     \<noteq> ['' a = 1\<newline>'', ''bb = 2\<newline>'']"
  by code_simp

text \<open>The lines written for a schema with distinct names whose values are all present.\<close>

lemma write_pretty_params_sorted:
  assumes "ps \<noteq> []" and "distinct (map name ps)"
    and "\<forall>p\<in>set ps. config (name p) = Some (val p) \<and> format py p (val p) = Inr (fmt p)"
  shows "write_pretty_params py config ps
           = (map (\<lambda>p. ljust (name p) (Max (set (map (length \<circ> name) ps))) @ '' = '' @ fmt p @ ''\<newline>'')
                (sort_key name ps), None)
         \<and> sorted (map name (sort_key name ps))
         \<and> set (sort_key name ps) = set ps
         \<and> length (sort_key name ps) = length ps
         \<and> (\<forall>p\<in>set ps. length (ljust (name p) (Max (set (map (length \<circ> name) ps))))
                = Max (set (map (length \<circ> name) ps)))"
proof -
  let ?w = "Max (set (map (length \<circ> name) ps))"
  let ?kvs = "map (\<lambda>p. (name p, p)) ps"
  from assms(1) obtain q qs where ps: "ps = q # qs" by (cases ps) auto
  have w: "fold max (map (length \<circ> name) qs) (length (name q)) = ?w"
    unfolding ps using Max.set_eq_fold [of "length (name q)" "map (length \<circ> name) qs"] by simp
  have dist: "distinct (map fst ?kvs)" using assms(2) by (simp add: comp_def)
  then have d: "dict ?kvs = ?kvs" by (rule dict_distinct)
  have lookup: "map_of ?kvs (name p) = Some p" if "p \<in> set ps" for p
  proof (rule map_of_is_SomeI)
    show "distinct (map fst ?kvs)" by (rule dist)
    show "(name p, p) \<in> set ?kvs" using that by auto
  qed
  have "write_param_lines py config ?w ?kvs (map name (sort_key name ps))
          = (map (\<lambda>p. ljust (name p) ?w @ '' = '' @ fmt p @ ''\<newline>'') (sort_key name ps), None)"
    by (rule write_param_lines_ok) (use assms(3) lookup in auto)
  then have main: "write_pretty_params py config ps
           = (map (\<lambda>p. ljust (name p) ?w @ '' = '' @ fmt p @ ''\<newline>'') (sort_key name ps), None)"
    using w d by (simp add: write_pretty_params_def ps sort_map_key [symmetric] comp_def del: sort_key_simps)
  have pad: "length (ljust (name p) ?w) = ?w" if "p \<in> set ps" for p
  proof -
    from that have "length (name p) \<in> set (map (length \<circ> name) ps)" by auto
    then have "length (name p) \<le> ?w" by (intro Max_ge) auto
    then show ?thesis by (simp add: ljust_def)
  qed
  from main pad show ?thesis by simp
qed

text \<open>
  C6, amended. For every non-empty list of descriptors with distinct names, each with a
  value \<open>val p\<close> in the configuration that is formatted as \<open>fmt p\<close>, \<^verbatim>\<open>write_pretty_params\<close>
  writes exactly one line \<^verbatim>\<open>paddedName = formattedValue\<close> per descriptor, in the order of the
  names (the order of Python strings: lexicographic by character code), every name
  left-justified, that is followed by blanks up to the maximum name length. The output is a
  function of the input.
\<close>

theorem write_pretty_params_lines:
  assumes "ps \<noteq> []" and "distinct (map name ps)"
    and "\<forall>p\<in>set ps. config (name p) = Some (val p) \<and> format py p (val p) = Inr (fmt p)"
  shows "write_pretty_params py config ps
           = (map (\<lambda>p. ljust (name p) (Max (set (map (length \<circ> name) ps))) @ '' = '' @ fmt p @ ''\<newline>'')
                (sort_key name ps), None)
         \<and> sorted (map name (sort_key name ps))
         \<and> set (sort_key name ps) = set ps
         \<and> length (sort_key name ps) = length ps
         \<and> (\<forall>p\<in>set ps. length (ljust (name p) (Max (set (map (length \<circ> name) ps))))
                = Max (set (map (length \<circ> name) ps)))"
  using assms by (rule write_pretty_params_sorted)

theorem write_pretty_params_lines_witness:
  "write_pretty_params example_py [''a'' \<mapsto> VInt 1, ''bb'' \<mapsto> VList [''x'', ''y'']]
      [\<lparr>name = ''bb'', value_type = TList, default_value = None\<rparr>,
       \<lparr>name = ''a'', value_type = TInt, default_value = None\<rparr>]
     = ([''a  = 1\<newline>'', ''bb = x y\<newline>''], None)"
proof -
  let ?bb = "\<lparr>name = ''bb'', value_type = TList, default_value = None :: string pyval option\<rparr>"
  let ?a = "\<lparr>name = ''a'', value_type = TInt, default_value = None :: string pyval option\<rparr>"
  let ?val = "\<lambda>p. if name p = ''a'' then VInt 1 else VList [''x'', ''y'']"
  let ?fmt = "\<lambda>p :: string ConfigParameter. if name p = ''a'' then ''1'' else ''x y''"
  have s1: "str_of_int 1 = ''1''" by code_simp
  have w: "Max (set (map (length \<circ> name) [?bb, ?a])) = 2" by simp
  have srt: "sort_key name [?bb, ?a] = [?a, ?bb]" by simp
  have "write_pretty_params example_py [''a'' \<mapsto> VInt 1, ''bb'' \<mapsto> VList [''x'', ''y'']] [?bb, ?a]
           = (map (\<lambda>p. ljust (name p) (Max (set (map (length \<circ> name) [?bb, ?a]))) @ '' = '' @ ?fmt p @ ''\<newline>'')
                (sort_key name [?bb, ?a]), None)"
    using write_pretty_params_lines [where ps = "[?bb, ?a]" and py = example_py
        and config = "[''a'' \<mapsto> VInt 1, ''bb'' \<mapsto> VList [''x'', ''y'']]" and val = ?val and fmt = ?fmt]
    by (simp add: format_def s1)
  then show ?thesis unfolding w srt by (simp add: ljust_def)
qed

section \<open>Properties of Config\<close>

text \<open>What a successful load went through.\<close>

lemma and_then_Inr:
  assumes "and_then m k = (ws, Inr y)"
  obtains ws1 x ws2 where "m = (ws1, Inr x)" and "k x = (ws2, Inr y)" and "ws = ws1 @ ws2"
proof -
  obtain ws1 r where m: "m = (ws1, r)" by (cases m)
  show ?thesis
  proof (cases r)
    case (Inl e)
    with assms m show ?thesis by simp
  next
    case (Inr x)
    obtain ws2 r2 where k: "k x = (ws2, r2)" by (cases "k x")
    with assms m Inr have "ws = ws1 @ ws2" "r2 = Inr y" by simp_all
    with m Inr k that show ?thesis by blast
  qed
qed

lemma Config_init_Inr:
  assumes "Config_init (py :: 'f builtins) gt rt st tt fs filename = (ws, Inr c)"
  obtains parameters ws0 a gc wsg sc wss tc wst rc wsr where
    "\<not> Option.is_none (parse_config gt)" "\<not> Option.is_none (parse_config rt)"
    "\<not> Option.is_none (parse_config st)" "\<not> Option.is_none (parse_config tt)"
    "fs filename = Some (Inr parameters)" "has_section parameters ''NEAT''"
    "parse_params py parameters Config_params Map.empty = (ws0, Inr a)"
    "check_unknown_NEAT parameters = ([] :: 'f warning list, Inr () :: 'f exn + unit)"
    "parse_section parameters gt = (wsg, Inr gc)"
    "parse_section parameters st = (wss, Inr sc)"
    "parse_section parameters tt = (wst, Inr tc)"
    "parse_section parameters rt = (wsr, Inr rc)"
    "ws = ws0 @ wsg @ wss @ wst @ wsr"
    "c = \<lparr>genome_type = gt, reproduction_type = rt, species_set_type = st,
          stagnation_type = tt, neat_attrs = a, genome_config = gc,
          species_set_config = sc, stagnation_config = tc, reproduction_config = rc\<rparr>"
proof -
  from assms have pc: "\<not> Option.is_none (parse_config gt)" "\<not> Option.is_none (parse_config rt)"
    "\<not> Option.is_none (parse_config st)" "\<not> Option.is_none (parse_config tt)"
    by (auto simp: Config_init_def split: if_splits)
  with assms obtain parameters where f: "fs filename = Some (Inr parameters)"
    by (auto simp: Config_init_def split: option.splits sum.splits)
  with assms pc have hs: "has_section parameters ''NEAT''"
    by (auto simp: Config_init_def split: if_splits)
  from assms pc f hs have chain:
    "and_then (parse_params py parameters Config_params Map.empty) (\<lambda>a.
       and_then (check_unknown_NEAT parameters) (\<lambda>_.
       and_then (parse_section parameters gt) (\<lambda>genome_config.
       and_then (parse_section parameters st) (\<lambda>species_set_config.
       and_then (parse_section parameters tt) (\<lambda>stagnation_config.
       and_then (parse_section parameters rt) (\<lambda>reproduction_config.
         ([], Inr \<lparr>genome_type = gt, reproduction_type = rt, species_set_type = st,
                   stagnation_type = tt, neat_attrs = a, genome_config = genome_config,
                   species_set_config = species_set_config,
                   stagnation_config = stagnation_config,
                   reproduction_config = reproduction_config\<rparr>))))))) = (ws, Inr c)"
    by (simp add: Config_init_def)
  from chain obtain ws0 a w1 where 1: "parse_params py parameters Config_params Map.empty = (ws0, Inr a)"
    and r1: "and_then (check_unknown_NEAT parameters) (\<lambda>_.
       and_then (parse_section parameters gt) (\<lambda>genome_config.
       and_then (parse_section parameters st) (\<lambda>species_set_config.
       and_then (parse_section parameters tt) (\<lambda>stagnation_config.
       and_then (parse_section parameters rt) (\<lambda>reproduction_config.
         ([], Inr \<lparr>genome_type = gt, reproduction_type = rt, species_set_type = st,
                   stagnation_type = tt, neat_attrs = a, genome_config = genome_config,
                   species_set_config = species_set_config,
                   stagnation_config = stagnation_config,
                   reproduction_config = reproduction_config\<rparr>)))))) = (w1, Inr c)"
    and e1: "ws = ws0 @ w1"
    by (rule and_then_Inr)
  from r1 obtain wu u w2 where 2: "check_unknown_NEAT parameters = (wu, Inr u)"
    and r2: "and_then (parse_section parameters gt) (\<lambda>genome_config.
       and_then (parse_section parameters st) (\<lambda>species_set_config.
       and_then (parse_section parameters tt) (\<lambda>stagnation_config.
       and_then (parse_section parameters rt) (\<lambda>reproduction_config.
         ([], Inr \<lparr>genome_type = gt, reproduction_type = rt, species_set_type = st,
                   stagnation_type = tt, neat_attrs = a, genome_config = genome_config,
                   species_set_config = species_set_config,
                   stagnation_config = stagnation_config,
                   reproduction_config = reproduction_config\<rparr>))))) = (w2, Inr c)"
    and e2: "w1 = wu @ w2"
    by (rule and_then_Inr)
  have wu: "wu = []"
    using 2 by (auto simp: check_unknown_NEAT_def Let_def split: sum.splits if_splits)
  from r2 obtain wsg gc w3 where 3: "parse_section parameters gt = (wsg, Inr gc)"
    and r3: "and_then (parse_section parameters st) (\<lambda>species_set_config.
       and_then (parse_section parameters tt) (\<lambda>stagnation_config.
       and_then (parse_section parameters rt) (\<lambda>reproduction_config.
         ([], Inr \<lparr>genome_type = gt, reproduction_type = rt, species_set_type = st,
                   stagnation_type = tt, neat_attrs = a, genome_config = gc,
                   species_set_config = species_set_config,
                   stagnation_config = stagnation_config,
                   reproduction_config = reproduction_config\<rparr>)))) = (w3, Inr c)"
    and e3: "w2 = wsg @ w3"
    by (rule and_then_Inr)
  from r3 obtain wss sc w4 where 4: "parse_section parameters st = (wss, Inr sc)"
    and r4: "and_then (parse_section parameters tt) (\<lambda>stagnation_config.
       and_then (parse_section parameters rt) (\<lambda>reproduction_config.
         ([], Inr \<lparr>genome_type = gt, reproduction_type = rt, species_set_type = st,
                   stagnation_type = tt, neat_attrs = a, genome_config = gc,
                   species_set_config = sc,
                   stagnation_config = stagnation_config,
                   reproduction_config = reproduction_config\<rparr>))) = (w4, Inr c)"
    and e4: "w3 = wss @ w4"
    by (rule and_then_Inr)
  from r4 obtain wst tc w5 where 5: "parse_section parameters tt = (wst, Inr tc)"
    and r5: "and_then (parse_section parameters rt) (\<lambda>reproduction_config.
         ([], Inr \<lparr>genome_type = gt, reproduction_type = rt, species_set_type = st,
                   stagnation_type = tt, neat_attrs = a, genome_config = gc,
                   species_set_config = sc,
                   stagnation_config = tc,
                   reproduction_config = reproduction_config\<rparr>)) = (w5, Inr c)"
    and e5: "w4 = wst @ w5"
    by (rule and_then_Inr)
  obtain wsr r where p6: "parse_section parameters rt = (wsr, r)"
    by (cases "parse_section parameters rt")
  with r5 obtain rc where rc: "r = Inr rc" by (cases r) auto
  from p6 rc have 6: "parse_section parameters rt = (wsr, Inr rc)" by simp
  from r5 6 have c: "c = \<lparr>genome_type = gt, reproduction_type = rt, species_set_type = st,
          stagnation_type = tt, neat_attrs = a, genome_config = gc,
          species_set_config = sc, stagnation_config = tc, reproduction_config = rc\<rparr>"
    and e6: "w5 = wsr" by simp_all
  have ws: "ws = ws0 @ wsg @ wss @ wst @ wsr"
    using e1 e2 e3 e4 e5 e6 wu by simp
  from 2 wu have "check_unknown_NEAT parameters = ([] :: 'f warning list, Inr () :: 'f exn + unit)"
    by simp
  with pc f hs 1 3 4 5 6 ws c that show ?thesis by blast
qed

text \<open>The errors of the reader, and the loop over the global parameters.\<close>

lemma interpolate_items_Inr:
  "interpolate_items opts = (Inr kvs :: 'f exn + _) \<Longrightarrow> map_of opts k \<noteq> Some BadInterpolation"
proof (induction opts arbitrary: kvs rule: interpolate_items.induct)
  case 1
  then show ?case by simp
next
  case (2 k' opts)
  then show ?case by simp
next
  case (3 k' s opts)
  then show ?case by (auto split: sum.splits)
qed

lemma cp_get_errors:
  assumes "cp_get cp section option = (Inl e :: 'f exn + string)"
  shows "(e = NoSectionError \<and> map_of cp section = None)
       \<or> (e = NoOptionError \<and> (\<exists>opts. map_of cp section = Some opts \<and> map_of opts (lower option) = None))
       \<or> (e = InterpolationError \<and> (\<exists>opts. map_of cp section = Some opts
             \<and> map_of opts (lower option) = Some BadInterpolation))"
  using assms by (auto simp: cp_get_def split: option.splits option_text.splits)

lemma parse_errors:
  assumes "parse (py :: 'f builtins) p section cp = Inl e"
  shows "e = ValueError \<or> (\<exists>cs. value_type p = TOther cs) \<or> cp_get cp section (name p) = Inl e"
  using assms
  by (cases "value_type p"; cases "cp_get cp section (name p) :: 'f exn + string")
     (auto simp: parse_def getint_def getfloat_def getboolean_def
           split: sum.splits option.splits if_splits)

lemma parse_params_other:
  "parse_params py cp ps a = (ws, Inr a') \<Longrightarrow> n \<notin> name ` set ps \<Longrightarrow> a' n = a n"
proof (induction ps arbitrary: a ws)
  case Nil
  then show ?case by simp
next
  case (Cons p ps)
  then show ?case
    by (auto split: option.splits sum.splits if_splits prod.splits)
qed


lemma parse_params_warnings:
  "parse_params py cp ps a = (ws, r) \<Longrightarrow> UsingDefault d n \<in> set ws \<Longrightarrow>
   \<exists>q\<in>set ps. name q = n \<and> isl (parse py q ''NEAT'' cp)"
proof (induction ps arbitrary: a ws)
  case Nil
  then show ?case by simp
next
  case (Cons p ps)
  then show ?case
    by (fastforce split: option.splits sum.splits if_splits prod.splits)
qed

lemma parse_params_each:
  assumes "parse_params py cp ps a = (ws, Inr a')" and "distinct (map name ps)" and "p \<in> set ps"
  shows "case parse py p ''NEAT'' cp of
           Inr v \<Rightarrow> a' (name p) = Some v
         | Inl e \<Rightarrow> is_Error_or_RuntimeError e
             \<and> (\<exists>d. default_value p = Some d \<and> a' (name p) = Some d
                    \<and> UsingDefault d (name p) \<in> set ws)"
  using assms
proof (induction ps arbitrary: a ws)
  case Nil
  then show ?case by simp
next
  case (Cons q qs)
  from Cons.prems(2) have fresh: "name q \<notin> name ` set qs" and dist: "distinct (map name qs)"
    by auto
  show ?case
  proof (cases "p = q")
    case True
    show ?thesis
    proof (cases "parse py q ''NEAT'' cp")
      case (Inr v)
      with Cons.prems(1) have "parse_params py cp qs (a(name q \<mapsto> v)) = (ws, Inr a')"
        by (auto split: option.splits)
      from parse_params_other [OF this fresh] Inr True show ?thesis by simp
    next
      case (Inl e)
      with Cons.prems(1) obtain d where d: "default_value q = Some d"
        by (cases "default_value q") auto
      with Cons.prems(1) Inl have ce: "is_Error_or_RuntimeError e"
        by (auto split: if_splits)
      with Cons.prems(1) Inl d obtain ws' where
        rest: "parse_params py cp qs (a(name q \<mapsto> d)) = (ws', Inr a')"
        and ws: "ws = UsingDefault d (name q) # ws'"
        by (auto split: prod.splits)
      from parse_params_other [OF rest fresh] Inl True d ce ws show ?thesis by simp
    qed
  next
    case False
    with Cons.prems(3) have p: "p \<in> set qs" by simp
    from Cons.prems(1) obtain a1 ws1 where
      rest: "parse_params py cp qs a1 = (ws1, Inr a')" and sub: "set ws1 \<subseteq> set ws"
      by (fastforce split: option.splits sum.splits if_splits prod.splits)
    from Cons.IH [OF rest dist p] sub show ?thesis
      by (auto split: sum.splits)
  qed
qed

text \<open>The schema of the global parameters.\<close>

lemma Config_params_names:
  "map name (Config_params :: 'f ConfigParameter list)
     = [''pop_size'', ''fitness_criterion'', ''fitness_threshold'', ''reset_on_extinction'',
        ''no_fitness_termination'']"
  by (simp add: Config_params_def)

lemma Config_params_distinct: "distinct (map name (Config_params :: 'f ConfigParameter list))"
  unfolding Config_params_names by simp

lemma Config_params_lower:
  "p \<in> set Config_params \<Longrightarrow> lower (name p) = name p"
proof -
  have "map lower [''pop_size'', ''fitness_criterion'', ''fitness_threshold'',
          ''reset_on_extinction'', ''no_fitness_termination'']
        = [''pop_size'', ''fitness_criterion'', ''fitness_threshold'', ''reset_on_extinction'',
           ''no_fitness_termination'']"
    by code_simp
  then have l: "lower ''pop_size'' = ''pop_size''"
      "lower ''fitness_criterion'' = ''fitness_criterion''"
      "lower ''fitness_threshold'' = ''fitness_threshold''"
      "lower ''reset_on_extinction'' = ''reset_on_extinction''"
      "lower ''no_fitness_termination'' = ''no_fitness_termination''"
    by simp_all
  assume "p \<in> set Config_params"
  then have "name p \<in> set (map name (Config_params :: 'a ConfigParameter list))"
    by simp
  then show "lower (name p) = name p"
    unfolding Config_params_names using l by auto
qed

lemma Config_params_kinds:
  "p \<in> set Config_params \<Longrightarrow> value_type p \<in> {TInt, TStr, TFloat, TBool}"
  by (auto simp: Config_params_def)

lemma check_unknown_NEAT_Inr:
  assumes "check_unknown_NEAT parameters = (ws, Inr u :: 'f exn + unit)"
  shows "\<exists>its. cp_items parameters ''NEAT'' = (Inr its :: 'f exn + _)"
  using assms by (cases "cp_items parameters ''NEAT'' :: 'f exn + _") (auto simp: check_unknown_NEAT_def)

lemma cp_items_Inr:
  assumes "cp_items cp section = (Inr its :: 'f exn + _)"
  shows "\<exists>opts. map_of cp section = Some opts \<and> (\<forall>k. map_of opts k \<noteq> Some BadInterpolation)"
  using assms interpolate_items_Inr [where ?'f = 'f]
  by (auto simp: cp_items_def split: option.splits)


lemma Config_load_each:
  assumes load: "Config_init (py :: 'f builtins) gt rt st tt fs filename = (ws, Inr c)"
    and cfgfile: "fs filename = Some (Inr parameters)"
    and p: "p \<in> set Config_params"
  shows "case parse py p ''NEAT'' parameters of
           Inr v \<Rightarrow> neat_attrs c (name p) = Some v
         | Inl e \<Rightarrow> e = NoOptionError
             \<and> (\<exists>d. default_value p = Some d \<and> neat_attrs c (name p) = Some d
                    \<and> UsingDefault d (name p) \<in> set ws)"
proof -
  from load obtain parameters' ws0 a gc wsg sc wss tc wst rc wsr where
    f': "fs filename = Some (Inr parameters')"
    and hs': "has_section parameters' ''NEAT''"
    and pp': "parse_params py parameters' Config_params Map.empty = (ws0, Inr a)"
    and cu': "check_unknown_NEAT parameters' = ([] :: 'f warning list, Inr () :: 'f exn + unit)"
    and ws: "ws = ws0 @ wsg @ wss @ wst @ wsr"
    and c: "c = \<lparr>genome_type = gt, reproduction_type = rt, species_set_type = st,
          stagnation_type = tt, neat_attrs = a, genome_config = gc,
          species_set_config = sc, stagnation_config = tc, reproduction_config = rc\<rparr>"
    by (rule Config_init_Inr)
  from f' cfgfile have eq: "parameters' = parameters" by simp
  note hs = hs' [unfolded eq] and pp = pp' [unfolded eq] and cu = cu' [unfolded eq]
  from check_unknown_NEAT_Inr [OF cu] obtain its where
    "cp_items parameters ''NEAT'' = (Inr its :: 'f exn + _)" by blast
  from cp_items_Inr [OF this] obtain opts where
    opts: "map_of parameters ''NEAT'' = Some opts"
    and good: "\<And>k. map_of opts k \<noteq> Some BadInterpolation" by blast
  have each: "case parse py p ''NEAT'' parameters of
           Inr v \<Rightarrow> a (name p) = Some v
         | Inl e \<Rightarrow> is_Error_or_RuntimeError e
             \<and> (\<exists>d. default_value p = Some d \<and> a (name p) = Some d
                    \<and> UsingDefault d (name p) \<in> set ws0)"
    by (rule parse_params_each [OF pp Config_params_distinct p])
  show ?thesis
  proof (cases "parse py p ''NEAT'' parameters")
    case (Inr v)
    with each c show ?thesis by simp
  next
    case (Inl e)
    with each have caught: "is_Error_or_RuntimeError e"
      and d: "\<exists>d. default_value p = Some d \<and> a (name p) = Some d
                    \<and> UsingDefault d (name p) \<in> set ws0" by simp_all
    from Config_params_kinds [OF p] have kinds: "\<not> (\<exists>cs. value_type p = TOther cs)" by auto
    from parse_errors [OF Inl] caught kinds
    have "cp_get parameters ''NEAT'' (name p) = (Inl e :: 'f exn + string)" by auto
    from cp_get_errors [OF this] opts good have "e = NoOptionError" by auto
    with d c ws Inl show ?thesis by auto
  qed
qed

lemma Config_parse_not_found:
  assumes p: "p \<in> set (Config_params :: 'f ConfigParameter list)"
    and opts: "map_of parameters ''NEAT'' = Some opts"
  shows "(parse (py :: 'f builtins) p ''NEAT'' parameters = Inl NoOptionError)
           = (map_of opts (name p) = None)"
proof -
  have g: "(cp_get parameters ''NEAT'' (name p) = (Inl NoOptionError :: 'f exn + string))
             = (map_of opts (name p) = None)"
    using opts Config_params_lower [OF p]
    by (auto simp: cp_get_def split: option.splits option_text.splits)
  from Config_params_kinds [OF p] show ?thesis
    unfolding g [symmetric]
    by (cases "cp_get parameters ''NEAT'' (name p) :: 'f exn + string")
       (auto simp: parse_def getint_def getfloat_def getboolean_def
             split: option.splits if_splits)
qed

text \<open>
  C4. Let reading the file give \<open>parameters\<close> and let \<open>p\<close> be a global parameter. In every
  successful load, either \<^verbatim>\<open>parse\<close> returned the value the configuration holds, or it raised
  the reader's \<^verbatim>\<open>NoOptionError\<close>, the parameter has a default, the configuration holds the
  default and the diagnostic is in the log. So any other failure of \<^verbatim>\<open>parse\<close> (a malformed
  value, a text that cannot be interpolated), and any failure for a parameter without a
  default, makes the load fail. \<^verbatim>\<open>NoOptionError\<close> is raised exactly when the option is absent
  from the \<^verbatim>\<open>NEAT\<close> section, and a parameter that was parsed emits no diagnostic.
\<close>

theorem Config_default_only_when_not_found:
  assumes "fs filename = Some (Inr parameters)" and "p \<in> set (Config_params :: 'f ConfigParameter list)"
  shows "(Config_init (py :: 'f builtins) gt rt st tt fs filename = (ws, Inr c) \<longrightarrow>
            (case parse py p ''NEAT'' parameters of
               Inr v \<Rightarrow> neat_attrs c (name p) = Some v
             | Inl e \<Rightarrow> e = NoOptionError
                 \<and> (\<exists>d. default_value p = Some d \<and> neat_attrs c (name p) = Some d
                        \<and> UsingDefault d (name p) \<in> set ws)))
       \<and> (\<forall>e. parse py p ''NEAT'' parameters = Inl e \<longrightarrow>
              e \<noteq> NoOptionError \<or> default_value p = None \<longrightarrow>
              isl (snd (Config_init py gt rt st tt fs filename)))
       \<and> (\<forall>opts. map_of parameters ''NEAT'' = Some opts \<longrightarrow>
              (parse py p ''NEAT'' parameters = Inl NoOptionError) = (map_of opts (name p) = None))
       \<and> (\<forall>v d. parse py p ''NEAT'' parameters = Inr v \<longrightarrow>
              UsingDefault d (name p) \<notin> set (fst (parse_params py parameters Config_params Map.empty)))"
proof (intro conjI allI impI)
  assume "Config_init py gt rt st tt fs filename = (ws, Inr c)"
  from Config_load_each [OF this assms]
  show "case parse py p ''NEAT'' parameters of
               Inr v \<Rightarrow> neat_attrs c (name p) = Some v
             | Inl e \<Rightarrow> e = NoOptionError
                 \<and> (\<exists>d. default_value p = Some d \<and> neat_attrs c (name p) = Some d
                        \<and> UsingDefault d (name p) \<in> set ws)" .
next
  fix e
  assume e: "parse py p ''NEAT'' parameters = Inl e"
    and bad: "e \<noteq> NoOptionError \<or> default_value p = None"
  show "isl (snd (Config_init py gt rt st tt fs filename))"
  proof (rule ccontr)
    assume "\<not> isl (snd (Config_init py gt rt st tt fs filename))"
    then obtain ws c where "Config_init py gt rt st tt fs filename = (ws, Inr c)"
      by (cases "Config_init py gt rt st tt fs filename"; cases "snd (Config_init py gt rt st tt fs filename)") auto
    from Config_load_each [OF this assms] e bad show False by auto
  qed
next
  fix opts
  assume "map_of parameters ''NEAT'' = Some opts"
  from Config_parse_not_found [OF assms(2) this]
  show "(parse py p ''NEAT'' parameters = Inl NoOptionError) = (map_of opts (name p) = None)" .
next
  fix v d
  assume v: "parse py p ''NEAT'' parameters = Inr v"
  show "UsingDefault d (name p) \<notin> set (fst (parse_params py parameters Config_params Map.empty))"
  proof
    assume in_ws: "UsingDefault d (name p) \<in> set (fst (parse_params py parameters Config_params Map.empty))"
    obtain ws0 r where pp: "parse_params py parameters Config_params Map.empty = (ws0, r)"
      by (cases "parse_params py parameters Config_params Map.empty")
    with in_ws have "UsingDefault d (name p) \<in> set ws0" by simp
    from parse_params_warnings [OF pp this] obtain q where
      q: "q \<in> set Config_params" "name q = name p" "isl (parse py q ''NEAT'' parameters)" by blast
    from q(1,2) assms(2) Config_params_distinct [where ?'f = 'f] have "q = p"
      by (metis distinct_map inj_onD)
    with q(3) v show False by simp
  qed
qed


theorem Config_default_only_when_not_found_witness:
  "neat_attrs (projr (snd (Config_init example_py example_G example_R example_S example_T
        example_fs ''config''))) ''no_fitness_termination'' = Some (VBool False)
   \<and> UsingDefault (VBool False) ''no_fitness_termination''
        \<in> set (fst (Config_init example_py example_G example_R example_S example_T
              example_fs ''config''))
   \<and> isl (snd (Config_init example_py example_G example_R example_S example_T
        [''config'' \<mapsto> Inr example_file_malformed] ''config''))
   \<and> isl (snd (Config_init example_py example_G example_R example_S example_T
        [''config'' \<mapsto> Inr example_file_uninterpolable] ''config''))"
proof -
  let ?p = "\<lparr>name = ''no_fitness_termination'', value_type = TBool,
             default_value = Some (VBool False :: string pyval)\<rparr>"
  let ?X = "Config_init example_py example_G example_R example_S example_T example_fs ''config''"
  have p: "?p \<in> set Config_params"
    by (simp add: Config_params_def)
  have "\<not> isl (snd ?X)"
    by code_simp
  then have X: "?X = (fst ?X, Inr (projr (snd ?X)))"
    by (cases ?X; cases "snd ?X") auto
  have f1: "example_fs ''config'' = Some (Inr example_file)"
    by (simp add: example_fs_def)
  have n1: "parse example_py ?p ''NEAT'' example_file = Inl NoOptionError"
    by code_simp
  have f2: "[''config'' \<mapsto> Inr example_file_malformed] ''config''
              = Some (Inr example_file_malformed :: string exn + _)"
    by simp
  have n2: "parse example_py ?p ''NEAT'' example_file_malformed = Inl ValueError"
    by code_simp
  have f3: "[''config'' \<mapsto> Inr example_file_uninterpolable] ''config''
              = Some (Inr example_file_uninterpolable :: string exn + _)"
    by simp
  have n3: "parse example_py ?p ''NEAT'' example_file_uninterpolable = Inl InterpolationError"
    by code_simp
  from Config_default_only_when_not_found [where fs = example_fs and filename = "''config''"
      and py = example_py and gt = example_G
      and rt = example_R and st = example_S and tt = example_T and ws = "fst ?X"
      and c = "projr (snd ?X)", OF f1 p] X n1
  have a: "neat_attrs (projr (snd ?X)) ''no_fitness_termination'' = Some (VBool False)"
    and b: "UsingDefault (VBool False) ''no_fitness_termination'' \<in> set (fst ?X)"
    by auto
  from Config_default_only_when_not_found [where fs = "[''config'' \<mapsto> Inr example_file_malformed]"
      and filename = "''config''" and py = example_py and gt = example_G
      and rt = example_R and st = example_S and tt = example_T, OF f2 p] n2
  have c: "isl (snd (Config_init example_py example_G example_R example_S example_T
        [''config'' \<mapsto> Inr example_file_malformed] ''config''))"
    by blast
  from Config_default_only_when_not_found [where fs = "[''config'' \<mapsto> Inr example_file_uninterpolable]"
      and filename = "''config''" and py = example_py and gt = example_G
      and rt = example_R and st = example_S and tt = example_T, OF f3 p] n3
  have d: "isl (snd (Config_init example_py example_G example_R example_S example_T
        [''config'' \<mapsto> Inr example_file_uninterpolable] ''config''))"
    by blast
  from a b c d show ?thesis by blast
qed

section \<open>Properties of AggregationFunctionSet\<close>

text \<open>
  C8. On every name and every state of the underlying function set, the index accessor
  returns the result of \<^verbatim>\<open>get\<close>, a function or the same exception, leaves the same state
  behind, and emits the diagnostics of \<^verbatim>\<open>get\<close> preceded by exactly one more, its deprecation
  warning.
\<close>

theorem getitem_is_get_with_warning:
  "snd (fst (getitem self i s)) = snd (fst (get self i s))
   \<and> snd (getitem self i s) = snd (get self i s)
   \<and> fst (fst (getitem self i s)) = UseGetNotIndexing i # fst (fst (get self i s))"
  by (simp add: getitem_def split: prod.splits)

section \<open>Construction and saving\<close>

lemma wseq_snd: "snd (wseq a b) = (case snd a of Some e \<Rightarrow> Some e | None \<Rightarrow> snd b)"
  by (cases a; cases b; cases "snd a") auto

lemma write_section_no_writer:
  "write_config t = None \<Longrightarrow>
   write_section t x = ([''\<newline>['' @ type_name t @ '']\<newline>''], Some AttributeError)"
  by (simp add: write_section_def)

lemma parse_section_write_config [simp]:
  "parse_section parameters (t\<lparr>write_config := w\<rparr>) = parse_section parameters t"
  by (simp add: parse_section_def split: sum.splits)

lemma and_then_map:
  "map_prod id (map_sum id f) (and_then m k)
     = and_then m (\<lambda>x. map_prod id (map_sum id f) (k x))"
  by (cases m; cases "snd m") (auto split: prod.splits)

lemma isl_snd_map: "isl (snd (map_prod f (map_sum g h) x)) = isl (snd x)"
  by (cases x; cases "snd x") auto

text \<open>
  C9. \<^verbatim>\<open>Config.__init__\<close> fails with \<^verbatim>\<open>AssertionError\<close>, whatever the file system and the path,
  when one of the four types has no \<^verbatim>\<open>parse_config\<close>. Replacing the \<^verbatim>\<open>write_config\<close> of the
  four types by anything else, \<open>None\<close> included, changes neither the diagnostics nor the
  outcome of the load (the exception, or the parameters and component configurations read).
  \<^verbatim>\<open>save\<close> on a configuration one of whose types has no \<^verbatim>\<open>write_config\<close> raises; the section
  of such a type stops after its header with \<^verbatim>\<open>AttributeError\<close>.
\<close>

theorem Config_init_checks_parse_config_only:
  "(Option.is_none (parse_config gt) \<or> Option.is_none (parse_config rt)
      \<or> Option.is_none (parse_config st) \<or> Option.is_none (parse_config tt) \<longrightarrow>
      Config_init py gt rt st tt fs filename = ([], Inl AssertionError))
   \<and> map_prod id (map_sum id (\<lambda>c. (neat_attrs c, genome_config c, species_set_config c,
                                      stagnation_config c, reproduction_config c)))
        (Config_init py (gt\<lparr>write_config := wg\<rparr>) (rt\<lparr>write_config := wr\<rparr>)
           (st\<lparr>write_config := ws\<rparr>) (tt\<lparr>write_config := wt\<rparr>) fs filename)
     = map_prod id (map_sum id (\<lambda>c. (neat_attrs c, genome_config c, species_set_config c,
                                      stagnation_config c, reproduction_config c)))
        (Config_init py gt rt st tt fs filename)
   \<and> (Option.is_none (write_config (genome_type c))
        \<or> Option.is_none (write_config (species_set_type c))
        \<or> Option.is_none (write_config (stagnation_type c))
        \<or> Option.is_none (write_config (reproduction_type c)) \<longrightarrow>
        snd (save py c) \<noteq> None)
   \<and> (write_config t = None \<longrightarrow>
        write_section t x = ([''\<newline>['' @ type_name t @ '']\<newline>''], Some AttributeError))"
proof (intro conjI impI)
  assume "Option.is_none (parse_config gt) \<or> Option.is_none (parse_config rt)
      \<or> Option.is_none (parse_config st) \<or> Option.is_none (parse_config tt)"
  then show "Config_init py gt rt st tt fs filename = ([], Inl AssertionError)"
    by (auto simp: Config_init_def)
next
  show "map_prod id (map_sum id (\<lambda>c. (neat_attrs c, genome_config c, species_set_config c,
                                      stagnation_config c, reproduction_config c)))
        (Config_init py (gt\<lparr>write_config := wg\<rparr>) (rt\<lparr>write_config := wr\<rparr>)
           (st\<lparr>write_config := ws\<rparr>) (tt\<lparr>write_config := wt\<rparr>) fs filename)
     = map_prod id (map_sum id (\<lambda>c. (neat_attrs c, genome_config c, species_set_config c,
                                      stagnation_config c, reproduction_config c)))
        (Config_init py gt rt st tt fs filename)"
    by (simp add: Config_init_def and_then_map split: option.splits sum.splits)
next
  assume "Option.is_none (write_config (genome_type c))
        \<or> Option.is_none (write_config (species_set_type c))
        \<or> Option.is_none (write_config (stagnation_type c))
        \<or> Option.is_none (write_config (reproduction_type c))"
  then show "snd (save py c) \<noteq> None"
    by (auto simp: save_def wseq_snd write_section_def Option.is_none_def split: option.splits)
next
  assume "write_config t = None"
  then show "write_section t x = ([''\<newline>['' @ type_name t @ '']\<newline>''], Some AttributeError)"
    by (rule write_section_no_writer)
qed


theorem Config_init_checks_parse_config_only_witness:
  "Config_init example_py (example_G\<lparr>parse_config := None\<rparr>) example_R example_S example_T
      Map.empty ''nowhere'' = ([], Inl AssertionError)
   \<and> \<not> isl (snd (Config_init example_py (example_G\<lparr>write_config := None\<rparr>)
        (example_R\<lparr>write_config := None\<rparr>) (example_S\<lparr>write_config := None\<rparr>)
        (example_T\<lparr>write_config := None\<rparr>) example_fs ''config''))
   \<and> snd (save example_py (projr (snd (Config_init example_py (example_G\<lparr>write_config := None\<rparr>)
        (example_R\<lparr>write_config := None\<rparr>) (example_S\<lparr>write_config := None\<rparr>)
        (example_T\<lparr>write_config := None\<rparr>) example_fs ''config'')))) \<noteq> None"
proof -
  let ?X = "Config_init example_py (example_G\<lparr>write_config := None\<rparr>)
        (example_R\<lparr>write_config := None\<rparr>) (example_S\<lparr>write_config := None\<rparr>)
        (example_T\<lparr>write_config := None\<rparr>) example_fs ''config''"
  have "Option.is_none (parse_config (example_G\<lparr>parse_config := None\<rparr>))"
    by simp
  then have a: "Config_init example_py (example_G\<lparr>parse_config := None\<rparr>) example_R example_S
      example_T Map.empty ''nowhere'' = ([], Inl AssertionError)"
    using Config_init_checks_parse_config_only [where gt = "example_G\<lparr>parse_config := None\<rparr>"
        and py = example_py and rt = example_R and st = example_S and tt = example_T
        and fs = Map.empty and filename = "''nowhere''", THEN conjunct1]
    by blast
  have ok: "\<not> isl (snd (Config_init example_py example_G example_R example_S example_T
        example_fs ''config''))"
    by code_simp
  have "map_prod id (map_sum id (\<lambda>c. (neat_attrs c, genome_config c, species_set_config c,
                                      stagnation_config c, reproduction_config c))) ?X
     = map_prod id (map_sum id (\<lambda>c. (neat_attrs c, genome_config c, species_set_config c,
                                      stagnation_config c, reproduction_config c)))
        (Config_init example_py example_G example_R example_S example_T example_fs ''config'')"
    using Config_init_checks_parse_config_only [where gt = example_G
        and py = example_py and rt = example_R and st = example_S and tt = example_T
        and fs = example_fs and filename = "''config''" and wg = None and wr = None
        and ws = None and wt = None, THEN conjunct2, THEN conjunct1] .
  then have "isl (snd (map_prod id (map_sum id (\<lambda>c. (neat_attrs c, genome_config c,
          species_set_config c, stagnation_config c, reproduction_config c))) ?X))
     = isl (snd (map_prod id (map_sum id (\<lambda>c. (neat_attrs c, genome_config c,
          species_set_config c, stagnation_config c, reproduction_config c)))
        (Config_init example_py example_G example_R example_S example_T example_fs ''config'')))"
    by (rule arg_cong)
  with ok have b: "\<not> isl (snd ?X)"
    unfolding isl_snd_map by blast
  have "Option.is_none (write_config (genome_type (projr (snd ?X))))"
    by code_simp
  then have c: "snd (save example_py (projr (snd ?X))) \<noteq> None"
    using Config_init_checks_parse_config_only [where c = "projr (snd ?X)" and py = example_py,
        THEN conjunct2, THEN conjunct2, THEN conjunct1]
    by blast
  from a b c show ?thesis by blast
qed

text \<open>The rendering of the global parameters of a loaded configuration.\<close>

lemma Config_params_sorted:
  "sort_key name (Config_params :: 'f ConfigParameter list)
     = [\<lparr>name = ''fitness_criterion'', value_type = TStr, default_value = None\<rparr>,
        \<lparr>name = ''fitness_threshold'', value_type = TFloat, default_value = None\<rparr>,
        \<lparr>name = ''no_fitness_termination'', value_type = TBool, default_value = Some (VBool False)\<rparr>,
        \<lparr>name = ''pop_size'', value_type = TInt, default_value = None\<rparr>,
        \<lparr>name = ''reset_on_extinction'', value_type = TBool, default_value = None\<rparr>]"
  by (simp add: Config_params_def)

lemma Config_params_width:
  "Max (set (map (length \<circ> name) (Config_params :: 'f ConfigParameter list))) = 22"
  by (simp add: Config_params_def)

lemma Config_params_padded:
  "ljust ''fitness_criterion'' 22 = ''fitness_criterion     ''"
  "ljust ''fitness_threshold'' 22 = ''fitness_threshold     ''"
  "ljust ''no_fitness_termination'' 22 = ''no_fitness_termination''"
  "ljust ''pop_size'' 22 = ''pop_size              ''"
  "ljust ''reset_on_extinction'' 22 = ''reset_on_extinction   ''"
  by code_simp+

lemma write_section_ok:
  "write_config t = Some w \<Longrightarrow> w x = (out, None) \<Longrightarrow>
   write_section t x = ((''\<newline>['' @ type_name t @ '']\<newline>'') # out, None)"
  by (simp add: write_section_def)

lemma format_not_list:
  "value_type p \<noteq> TList \<Longrightarrow> format py p v = Inr (py_str py v)"
  by (cases "value_type p") (simp_all add: format_def)


lemma Config_load_attrs:
  assumes "parse_params (py :: 'f builtins) parameters Config_params Map.empty = (ws0, Inr a)"
    and "p \<in> set (Config_params :: 'f ConfigParameter list)"
  shows "\<exists>v. a (name p) = Some v"
  using parse_params_each [OF assms(1) Config_params_distinct assms(2)]
  by (cases "parse py p ''NEAT'' parameters") auto

lemma Config_write_pretty_params:
  assumes "parse_params (py :: 'f builtins) parameters Config_params Map.empty = (ws0, Inr a)"
  shows "\<exists>v1 v2 v3 v4 v5.
           a ''fitness_criterion'' = Some v1 \<and> a ''fitness_threshold'' = Some v2
           \<and> a ''no_fitness_termination'' = Some v3 \<and> a ''pop_size'' = Some v4
           \<and> a ''reset_on_extinction'' = Some v5
           \<and> write_pretty_params py a Config_params =
               ([''fitness_criterion      = '' @ py_str py v1 @ ''\<newline>'',
                 ''fitness_threshold      = '' @ py_str py v2 @ ''\<newline>'',
                 ''no_fitness_termination = '' @ py_str py v3 @ ''\<newline>'',
                 ''pop_size               = '' @ py_str py v4 @ ''\<newline>'',
                 ''reset_on_extinction    = '' @ py_str py v5 @ ''\<newline>''], None)"
proof -
  let ?ps = "Config_params :: 'f ConfigParameter list"
  have attrs: "\<forall>p\<in>set ?ps. a (name p) = Some (the (a (name p)))
                 \<and> format py p (the (a (name p))) = Inr (py_str py (the (a (name p))))"
  proof
    fix p :: "'f ConfigParameter"
    assume p: "p \<in> set Config_params"
    from Config_load_attrs [OF assms p] have "a (name p) = Some (the (a (name p)))" by auto
    moreover from Config_params_kinds [OF p] have "value_type p \<noteq> TList" by auto
    ultimately show "a (name p) = Some (the (a (name p)))
                 \<and> format py p (the (a (name p))) = Inr (py_str py (the (a (name p))))"
      by (simp add: format_not_list)
  qed
  have ne: "?ps \<noteq> []" by (simp add: Config_params_def)
  from write_pretty_params_sorted [OF ne Config_params_distinct attrs]
  have w: "write_pretty_params py a ?ps =
      (map (\<lambda>p. ljust (name p) (Max (set (map (length \<circ> name) ?ps))) @ '' = ''
                  @ py_str py (the (a (name p))) @ ''\<newline>'') (sort_key name ?ps), None)"
    by blast
  have v: "a ''fitness_criterion'' = Some (the (a ''fitness_criterion''))"
    "a ''fitness_threshold'' = Some (the (a ''fitness_threshold''))"
    "a ''no_fitness_termination'' = Some (the (a ''no_fitness_termination''))"
    "a ''pop_size'' = Some (the (a ''pop_size''))"
    "a ''reset_on_extinction'' = Some (the (a ''reset_on_extinction''))"
    using attrs unfolding Config_params_def by simp_all
  have "write_pretty_params py a ?ps =
               ([''fitness_criterion      = '' @ py_str py (the (a ''fitness_criterion'')) @ ''\<newline>'',
                 ''fitness_threshold      = '' @ py_str py (the (a ''fitness_threshold'')) @ ''\<newline>'',
                 ''no_fitness_termination = '' @ py_str py (the (a ''no_fitness_termination'')) @ ''\<newline>'',
                 ''pop_size               = '' @ py_str py (the (a ''pop_size'')) @ ''\<newline>'',
                 ''reset_on_extinction    = '' @ py_str py (the (a ''reset_on_extinction'')) @ ''\<newline>''], None)"
    unfolding w Config_params_sorted Config_params_width
    by (simp add: Config_params_padded)
  with v show ?thesis by blast
qed

text \<open>
  C5, as stated, fails on the order of the component sections: the constructor takes the
  types in the order genome, reproduction, species set, stagnation (first line below), and
  \<^verbatim>\<open>save\<close> writes their headers in the order genome, species set, stagnation, reproduction.
\<close>

theorem save_order_counterexample:
  "map (\<lambda>t. ''\<newline>['' @ type_name t @ '']\<newline>'') [example_G, example_R, example_S, example_T]
     = [''\<newline>[G]\<newline>'', ''\<newline>[R]\<newline>'', ''\<newline>[S]\<newline>'', ''\<newline>[T]\<newline>'']
   \<and> filter (\<lambda>w. take 2 w = ''\<newline>['')
        (fst (save example_py (projr (snd (Config_init example_py example_G example_R example_S
           example_T example_fs ''config'')))))
     = [''\<newline>[G]\<newline>'', ''\<newline>[S]\<newline>'', ''\<newline>[T]\<newline>'', ''\<newline>[R]\<newline>'']"
  by code_simp

text \<open>
  C5, amended. For every successfully loaded configuration whose four component writers
  succeed, \<^verbatim>\<open>save\<close> writes the two comment lines, the \<^verbatim>\<open>[NEAT]\<close> header, the five global
  parameters in the order of their names and padded to a common width, and then four
  sections, each a blank line and a header naming the component type followed by what that
  type's \<^verbatim>\<open>write_config\<close> writes, in the fixed order genome, species set, stagnation,
  reproduction.
\<close>

theorem save_layout:
  assumes "Config_init (py :: 'f builtins) gt rt st tt fs filename = (ws, Inr c)"
    and "write_config gt = Some write_g" and "write_g (genome_config c) = (out_g, None)"
    and "write_config st = Some write_s" and "write_s (species_set_config c) = (out_s, None)"
    and "write_config tt = Some write_t" and "write_t (stagnation_config c) = (out_t, None)"
    and "write_config rt = Some write_r" and "write_r (reproduction_config c) = (out_r, None)"
  shows "\<exists>v1 v2 v3 v4 v5.
           neat_attrs c ''fitness_criterion'' = Some v1
           \<and> neat_attrs c ''fitness_threshold'' = Some v2
           \<and> neat_attrs c ''no_fitness_termination'' = Some v3
           \<and> neat_attrs c ''pop_size'' = Some v4
           \<and> neat_attrs c ''reset_on_extinction'' = Some v5
           \<and> save py c =
               ([''# The `NEAT` section specifies parameters particular to the NEAT algorithm\<newline>'',
                 ''# or the experiment itself.  This is the only required section.\<newline>'',
                 ''[NEAT]\<newline>'',
                 ''fitness_criterion      = '' @ py_str py v1 @ ''\<newline>'',
                 ''fitness_threshold      = '' @ py_str py v2 @ ''\<newline>'',
                 ''no_fitness_termination = '' @ py_str py v3 @ ''\<newline>'',
                 ''pop_size               = '' @ py_str py v4 @ ''\<newline>'',
                 ''reset_on_extinction    = '' @ py_str py v5 @ ''\<newline>'']
                @ (''\<newline>['' @ type_name gt @ '']\<newline>'') # out_g
                @ (''\<newline>['' @ type_name st @ '']\<newline>'') # out_s
                @ (''\<newline>['' @ type_name tt @ '']\<newline>'') # out_t
                @ (''\<newline>['' @ type_name rt @ '']\<newline>'') # out_r, None)"
proof -
  from assms(1) obtain parameters ws0 a gc sc tc rc where
    pp: "parse_params py parameters Config_params Map.empty = (ws0, Inr a)"
    and c: "c = \<lparr>genome_type = gt, reproduction_type = rt, species_set_type = st,
          stagnation_type = tt, neat_attrs = a, genome_config = gc,
          species_set_config = sc, stagnation_config = tc, reproduction_config = rc\<rparr>"
    by (rule Config_init_Inr)
  from Config_write_pretty_params [OF pp] obtain v1 v2 v3 v4 v5 where
    v: "a ''fitness_criterion'' = Some v1" "a ''fitness_threshold'' = Some v2"
       "a ''no_fitness_termination'' = Some v3" "a ''pop_size'' = Some v4"
       "a ''reset_on_extinction'' = Some v5"
    and w: "write_pretty_params py a Config_params =
               ([''fitness_criterion      = '' @ py_str py v1 @ ''\<newline>'',
                 ''fitness_threshold      = '' @ py_str py v2 @ ''\<newline>'',
                 ''no_fitness_termination = '' @ py_str py v3 @ ''\<newline>'',
                 ''pop_size               = '' @ py_str py v4 @ ''\<newline>'',
                 ''reset_on_extinction    = '' @ py_str py v5 @ ''\<newline>''], None)"
    by blast
  have g: "write_section gt gc = ((''\<newline>['' @ type_name gt @ '']\<newline>'') # out_g, None)"
    using assms(2,3) c by (simp add: write_section_ok)
  have s: "write_section st sc = ((''\<newline>['' @ type_name st @ '']\<newline>'') # out_s, None)"
    using assms(4,5) c by (simp add: write_section_ok)
  have t: "write_section tt tc = ((''\<newline>['' @ type_name tt @ '']\<newline>'') # out_t, None)"
    using assms(6,7) c by (simp add: write_section_ok)
  have r: "write_section rt rc = ((''\<newline>['' @ type_name rt @ '']\<newline>'') # out_r, None)"
    using assms(8,9) c by (simp add: write_section_ok)
  have "save py c =
               ([''# The `NEAT` section specifies parameters particular to the NEAT algorithm\<newline>'',
                 ''# or the experiment itself.  This is the only required section.\<newline>'',
                 ''[NEAT]\<newline>'',
                 ''fitness_criterion      = '' @ py_str py v1 @ ''\<newline>'',
                 ''fitness_threshold      = '' @ py_str py v2 @ ''\<newline>'',
                 ''no_fitness_termination = '' @ py_str py v3 @ ''\<newline>'',
                 ''pop_size               = '' @ py_str py v4 @ ''\<newline>'',
                 ''reset_on_extinction    = '' @ py_str py v5 @ ''\<newline>'']
                @ (''\<newline>['' @ type_name gt @ '']\<newline>'') # out_g
                @ (''\<newline>['' @ type_name st @ '']\<newline>'') # out_s
                @ (''\<newline>['' @ type_name tt @ '']\<newline>'') # out_t
                @ (''\<newline>['' @ type_name rt @ '']\<newline>'') # out_r, None)"
    unfolding save_def c by (simp add: w g s t r)
  with v c show ?thesis by simp
qed


theorem save_layout_witness:
  "save example_py (projr (snd (Config_init example_py example_G example_R example_S example_T
        example_fs ''config'')))
     = ([''# The `NEAT` section specifies parameters particular to the NEAT algorithm\<newline>'',
         ''# or the experiment itself.  This is the only required section.\<newline>'',
         ''[NEAT]\<newline>'',
         ''fitness_criterion      = max\<newline>'',
         ''fitness_threshold      = 3.9\<newline>'',
         ''no_fitness_termination = False\<newline>'',
         ''pop_size               = 150\<newline>'',
         ''reset_on_extinction    = False\<newline>'',
         ''\<newline>[G]\<newline>'', ''num_inputs = 2\<newline>'',
         ''\<newline>[S]\<newline>'', ''compatibility_threshold = 3.0\<newline>'',
         ''\<newline>[T]\<newline>'', ''species_fitness_func = max\<newline>'',
         ''\<newline>[R]\<newline>'', ''elitism = 2\<newline>''], None)"
proof -
  let ?X = "Config_init example_py example_G example_R example_S example_T example_fs ''config''"
  let ?c = "projr (snd ?X)"
  let ?w = "DefaultClassConfig_write_config example_py"
  have "\<not> isl (snd ?X)"
    by code_simp
  then have X: "?X = (fst ?X, Inr ?c)"
    by (cases ?X; cases "snd ?X") auto
  have wc: "write_config example_G = Some ?w" "write_config example_S = Some ?w"
    "write_config example_T = Some ?w" "write_config example_R = Some ?w"
    by (simp_all add: example_G_def example_S_def example_T_def example_R_def default_component_def)
  have og: "?w (genome_config ?c) = ([''num_inputs = 2\<newline>''], None)"
    by code_simp
  have os: "?w (species_set_config ?c) = ([''compatibility_threshold = 3.0\<newline>''], None)"
    by code_simp
  have ot: "?w (stagnation_config ?c) = ([''species_fitness_func = max\<newline>''], None)"
    by code_simp
  have orr: "?w (reproduction_config ?c) = ([''elitism = 2\<newline>''], None)"
    by code_simp
  have tn: "type_name example_G = ''G''" "type_name example_S = ''S''"
    "type_name example_T = ''T''" "type_name example_R = ''R''"
    by (simp_all add: example_G_def example_S_def example_T_def example_R_def default_component_def)
  have at: "neat_attrs ?c ''fitness_criterion'' = Some (VStr ''max'')"
    "neat_attrs ?c ''fitness_threshold'' = Some (VFloat ''3.9'')"
    "neat_attrs ?c ''no_fitness_termination'' = Some (VBool False)"
    "neat_attrs ?c ''pop_size'' = Some (VInt 150)"
    "neat_attrs ?c ''reset_on_extinction'' = Some (VBool False)"
    by code_simp+
  have st: "py_str example_py (VStr ''max'') = ''max''"
    "py_str example_py (VFloat ''3.9'') = ''3.9''"
    "py_str example_py (VBool False) = ''False''"
    "py_str example_py (VInt 150) = ''150''"
    by code_simp+
  from save_layout [OF X wc(1) og wc(2) os wc(3) ot wc(4) orr]
  obtain v1 v2 v3 v4 v5 where
    vs: "neat_attrs ?c ''fitness_criterion'' = Some v1"
      "neat_attrs ?c ''fitness_threshold'' = Some v2"
      "neat_attrs ?c ''no_fitness_termination'' = Some v3"
      "neat_attrs ?c ''pop_size'' = Some v4"
      "neat_attrs ?c ''reset_on_extinction'' = Some v5"
    and sv: "save example_py ?c =
               ([''# The `NEAT` section specifies parameters particular to the NEAT algorithm\<newline>'',
                 ''# or the experiment itself.  This is the only required section.\<newline>'',
                 ''[NEAT]\<newline>'',
                 ''fitness_criterion      = '' @ py_str example_py v1 @ ''\<newline>'',
                 ''fitness_threshold      = '' @ py_str example_py v2 @ ''\<newline>'',
                 ''no_fitness_termination = '' @ py_str example_py v3 @ ''\<newline>'',
                 ''pop_size               = '' @ py_str example_py v4 @ ''\<newline>'',
                 ''reset_on_extinction    = '' @ py_str example_py v5 @ ''\<newline>'']
                @ (''\<newline>['' @ type_name example_G @ '']\<newline>'') # [''num_inputs = 2\<newline>'']
                @ (''\<newline>['' @ type_name example_S @ '']\<newline>'') # [''compatibility_threshold = 3.0\<newline>'']
                @ (''\<newline>['' @ type_name example_T @ '']\<newline>'') # [''species_fitness_func = max\<newline>'']
                @ (''\<newline>['' @ type_name example_R @ '']\<newline>'') # [''elitism = 2\<newline>''], None)"
    by blast
  from vs at have eq: "v1 = VStr ''max''" "v2 = VFloat ''3.9''" "v3 = VBool False"
    "v4 = VInt 150" "v5 = VBool False"
    by simp_all
  show ?thesis
    unfolding sv eq st tn by simp
qed

end
